theory Spec2Isabelle
  imports Main
begin

section \<open>The outside world of the two scripts\<close>

text \<open>
  Both scripts are sequences of calls to external programs. The model keeps the scripts'
  control flow as it is written and takes the behaviour of everything outside the scripts
  (the cluster tools, the terminal, the file system, the HTTP server under test) from an
  arbitrary environment, a record of functions over an arbitrary world type.
  Every theorem below is about every environment.
\<close>

datatype exn =
    KeyboardInterrupt
  | SystemExit int
  | IndexError
  | EOFError
  | OSError string
  | CalledProcessError int
  | JSONDecodeError
  | KeyError
  | TypeError
  | AssertionError string

text \<open>\<open>except Exception\<close> catches everything but the interrupt and the exit request.\<close>

fun is_Exception :: "exn \<Rightarrow> bool" where
  "is_Exception KeyboardInterrupt = False"
| "is_Exception (SystemExit n) = False"
| "is_Exception e = True"

text \<open>
  What \<open>subprocess.run\<close> can do with a command: complete with an exit status and the
  captured output, fail to launch (missing binary, OS-level error; the payload is the
  error's text), or be cut short by the operator's interrupt.
\<close>

datatype outcome =
    Completed int string string
  | LaunchFails string
  | Interrupted

datatype input_outcome = InputLine string | InputEOF | InputInterrupted

datatype http_outcome = HttpStatus nat | HttpRequestFails string | HttpInterrupted

datatype popen_outcome = Spawned nat | SpawnFails string

datatype json = JNull | JBool bool | JNum int | JStr string | JArr "json list"
  | JObj "(string \<times> json) list"

record 'w env =
  launch :: "string list \<Rightarrow> 'w \<Rightarrow> outcome \<times> 'w"
  read_input :: "'w \<Rightarrow> input_outcome \<times> 'w"
  path_exists :: "string \<Rightarrow> 'w \<Rightarrow> bool"
  popen :: "string list \<Rightarrow> 'w \<Rightarrow> popen_outcome \<times> 'w"
  http_get :: "string \<Rightarrow> 'w \<Rightarrow> http_outcome \<times> 'w"
  json_loads :: "string \<Rightarrow> json option"

text \<open>
  Everything a script does that can be observed from outside, in order. The print helpers
  are kept apart by constructor; colour codes and pictographs are presentation and are
  left out of the payload. \<open>Exec\<close> records a call of \<open>subprocess.run\<close>.
  A printed line that holds the text of an exception is \<open>Failure\<close>, with the label
  printed before that text and the exception; a printed line that holds JSON values is
  \<open>Report\<close>, with the pieces of text around the values and the values in order.
\<close>

datatype event =
    Header string
  | Success string
  | Error string
  | Warning string
  | Info string
  | Line string
  | Item string
  | Echo "string list"
  | DryRun "string list"
  | Exec "string list"
  | Sleep nat
  | Prompt string
  | Traceback
  | Spawn nat "string list"
  | Terminate nat
  | Wait nat
  | HttpGet string
  | Failure string exn
  | Report "string list" "json list"

record 'w state =
  world :: 'w
  trace :: "event list"
  deleted_resources :: "string list"

type_synonym ('a, 'w) prog = "'w state \<Rightarrow> (exn + 'a) \<times> 'w state"

definition ret :: "'a \<Rightarrow> ('a, 'w) prog" where
  "ret x s = (Inr x, s)"

definition raise :: "exn \<Rightarrow> ('a, 'w) prog" where
  "raise e s = (Inl e, s)"

definition seq :: "('a, 'w) prog \<Rightarrow> ('a \<Rightarrow> ('b, 'w) prog) \<Rightarrow> ('b, 'w) prog" where
  "seq m f s = (case m s of (Inl e, s') \<Rightarrow> (Inl e, s') | (Inr x, s') \<Rightarrow> f x s')"

definition emit :: "event \<Rightarrow> (unit, 'w) prog" where
  "emit e s = (Inr (), s\<lparr>trace := trace s @ [e]\<rparr>)"

definition whenE :: "bool \<Rightarrow> (unit, 'w) prog \<Rightarrow> (unit, 'w) prog" where
  "whenE b m = (if b then m else ret ())"

text \<open>\<open>try: ... finally: ...\<close>: the handler runs on every exit; when the handler
  itself raises, its exception replaces the pending result.\<close>

definition try_finally :: "('a, 'w) prog \<Rightarrow> (unit, 'w) prog \<Rightarrow> ('a, 'w) prog" where
  "try_finally m h s =
     (case m s of (r, s') \<Rightarrow>
        (case h s' of (Inl e, s'') \<Rightarrow> (Inl e, s'') | (Inr u, s'') \<Rightarrow> (r, s'')))"

section \<open>Strings as Python handles them\<close>

fun join :: "string \<Rightarrow> string list \<Rightarrow> string" where
  "join sep [] = []"
| "join sep [x] = x"
| "join sep (x # y # ys) = x @ sep @ join sep (y # ys)"

definition is_space :: "char \<Rightarrow> bool" where
  "is_space c = (c \<in> set [CHR 0x09, CHR 0x0A, CHR 0x0B, CHR 0x0C, CHR 0x0D,
                             CHR 0x1C, CHR 0x1D, CHR 0x1E, CHR 0x1F, CHR 0x20,
                             CHR 0x85, CHR 0xA0])"

definition strip :: "string \<Rightarrow> string" where
  "strip s = rev (dropWhile is_space (rev (dropWhile is_space s)))"

text \<open>\<open>s.split('\n')\<close>: the pieces between newlines; always at least one piece.\<close>

fun split_lines :: "string \<Rightarrow> string list" where
  "split_lines [] = [[]]"
| "split_lines (c # cs) =
     (if c = CHR 0x0A then [] # split_lines cs
      else (case split_lines cs of [] \<Rightarrow> [[c]] | l # ls \<Rightarrow> (c # l) # ls))"

text \<open>\<open>s.split()\<close>: the maximal runs of non-whitespace.\<close>

fun split_words_acc :: "string \<Rightarrow> string \<Rightarrow> string list" where
  "split_words_acc acc [] = (if acc = [] then [] else [rev acc])"
| "split_words_acc acc (c # cs) =
     (if is_space c then (if acc = [] then split_words_acc [] cs
                          else rev acc # split_words_acc [] cs)
      else split_words_acc (c # acc) cs)"

definition split_words :: "string \<Rightarrow> string list" where
  "split_words s = split_words_acc [] s"

definition lower_char :: "char \<Rightarrow> char" where
  "lower_char c =
     (let n = of_char c :: nat in
      if (65 \<le> n \<and> n \<le> 90) \<or> (192 \<le> n \<and> n \<le> 222 \<and> n \<noteq> 215) then char_of (n + 32) else c)"

definition lower :: "string \<Rightarrow> string" where
  "lower s = map lower_char s"

fun starts_with :: "string \<Rightarrow> string \<Rightarrow> bool" where
  "starts_with [] ys = True"
| "starts_with (x # xs) [] = False"
| "starts_with (x # xs) (y # ys) = (x = y \<and> starts_with xs ys)"

text \<open>\<open>needle in haystack\<close> for strings: a contiguous occurrence.\<close>

fun str_in :: "string \<Rightarrow> string \<Rightarrow> bool" where
  "str_in needle [] = (needle = [])"
| "str_in needle (c # cs) = (starts_with needle (c # cs) \<or> str_in needle cs)"

fun show_nat :: "nat \<Rightarrow> string" where
  "show_nat n = (if n < 10 then [char_of (48 + n)]
                 else show_nat (n div 10) @ [char_of (48 + n mod 10)])"

section \<open>cleanup.py\<close>

record args =
  opt_all :: bool
  dry_run :: bool
  verbose :: bool

text \<open>The text of the line a dry run prints in place of a suppressed command.\<close>

definition dry_run_line :: "string list \<Rightarrow> string" where
  "dry_run_line cmd = ''[DRY-RUN] Would execute: '' @ join '' '' cmd"

definition subprocess_run :: "'w env \<Rightarrow> string list \<Rightarrow> (outcome, 'w) prog" where
  "subprocess_run env cmd s =
     (case launch env cmd (world s) of
        (out, w') \<Rightarrow> (Inr out, s\<lparr>world := w', trace := trace s @ [Exec cmd]\<rparr>))"

text \<open>
  \<open>QuakeWatchCleanup.run_command\<close>. Every call site keeps the default
  \<open>capture_output=True\<close> or passes it, so the parameter is left out. \<open>cmd[0]\<close> is
  read only when \<open>self.dry_run\<close> holds, and raises on an empty command.
\<close>

definition suppressed :: "string list \<Rightarrow> bool" where
  "suppressed cmd =
     (case cmd of [] \<Rightarrow> False
      | c # _ \<Rightarrow> (c = ''kubectl'' \<or> c = ''helm'') \<and>
                 (''delete'' \<in> set cmd \<or> ''uninstall'' \<in> set cmd))"

definition run_command :: "'w env \<Rightarrow> args \<Rightarrow> string list \<Rightarrow> (int \<times> string \<times> string, 'w) prog" where
  "run_command env a cmd =
     seq (whenE (verbose a) (emit (Echo cmd))) (\<lambda>_.
       if dry_run a \<and> cmd = [] then raise IndexError
       else if dry_run a \<and> suppressed cmd then
         seq (emit (DryRun cmd)) (\<lambda>_. ret (0, [], []))
       else
         seq (subprocess_run env cmd) (\<lambda>result.
           case result of
             Completed returncode out err \<Rightarrow> ret (returncode, out, err)
           | LaunchFails msg \<Rightarrow> ret (1, [], msg)
           | Interrupted \<Rightarrow> raise KeyboardInterrupt))"

definition input :: "'w env \<Rightarrow> string \<Rightarrow> (string, 'w) prog" where
  "input env prompt s =
     (case read_input env (world s) of
        (r, w') \<Rightarrow>
          (let s' = s\<lparr>world := w', trace := trace s @ [Prompt prompt]\<rparr> in
           case r of
             InputLine l \<Rightarrow> (Inr l, s')
           | InputEOF \<Rightarrow> (Inl EOFError, s')
           | InputInterrupted \<Rightarrow> (Inl KeyboardInterrupt, s')))"

definition confirm_action :: "'w env \<Rightarrow> args \<Rightarrow> string \<Rightarrow> bool \<Rightarrow> (bool, 'w) prog" where
  "confirm_action env a message dflt =
     (if opt_all a then ret True
      else seq (input env (''? '' @ message @ '' ['' @ (if dflt then ''Y/n'' else ''y/N'') @ '']: ''))
             (\<lambda>line. let response = lower (strip line) in
                ret (if response \<noteq> [] then response = ''y'' \<or> response = ''yes'' else dflt)))"

definition namespace_exists :: "'w env \<Rightarrow> args \<Rightarrow> string \<Rightarrow> (bool, 'w) prog" where
  "namespace_exists env a namespace =
     seq (run_command env a [''kubectl'', ''get'', ''namespace'', namespace])
       (\<lambda>(returncode, _, _). ret (returncode = 0))"

text \<open>\<open>if namespace:\<close> is false for \<open>None\<close> and for the empty string.\<close>

fun truthy :: "string option \<Rightarrow> bool" where
  "truthy None = False"
| "truthy (Some n) = (n \<noteq> [])"

definition resource_exists :: "'w env \<Rightarrow> args \<Rightarrow> string \<Rightarrow> string \<Rightarrow> string option \<Rightarrow> (bool, 'w) prog" where
  "resource_exists env a resource_type name namespace =
     seq (run_command env a
            ([''kubectl'', ''get'', resource_type, name] @
             (if truthy namespace then [''-n'', the namespace] else [])))
       (\<lambda>(returncode, _, _). ret (returncode = 0))"

definition helm_release_exists :: "'w env \<Rightarrow> args \<Rightarrow> string \<Rightarrow> string \<Rightarrow> (bool, 'w) prog" where
  "helm_release_exists env a release namespace =
     seq (run_command env a [''helm'', ''list'', ''-n'', namespace, ''-q''])
       (\<lambda>(returncode, out, _). ret (returncode = 0 \<and> str_in release out))"

definition log_deleted :: "string \<Rightarrow> (unit, 'w) prog" where
  "log_deleted r s = (Inr (), s\<lparr>deleted_resources := deleted_resources s @ [r]\<rparr>)"

definition delete_resource :: "'w env \<Rightarrow> args \<Rightarrow> string \<Rightarrow> string \<Rightarrow> string option \<Rightarrow> bool \<Rightarrow> (bool, 'w) prog" where
  "delete_resource env a resource_type name namespace wait =
     seq (run_command env a
            ([''kubectl'', ''delete'', resource_type, name, ''--ignore-not-found=true''] @
             (if truthy namespace then [''-n'', the namespace] else []) @
             (if wait then [''--wait=true''] else [])))
       (\<lambda>(returncode, _, err).
          if returncode = 0 then
            seq (log_deleted (resource_type @ ''/'' @ name @
                   (if truthy namespace then '' -n '' @ the namespace else [])))
              (\<lambda>_. ret True)
          else
            seq (whenE (err \<noteq> [] \<and> verbose a)
                   (emit (Error (''Failed to delete '' @ resource_type @ ''/'' @ name @ '': '' @ err))))
              (\<lambda>_. ret False))"

definition delete_namespace_wait :: "'w env \<Rightarrow> args \<Rightarrow> string \<Rightarrow> nat \<Rightarrow> (bool, 'w) prog" where
  "delete_namespace_wait env a namespace timeout =
     seq (namespace_exists env a namespace) (\<lambda>ex.
       if \<not> ex then ret True
       else
         seq (run_command env a
                [''kubectl'', ''delete'', ''namespace'', namespace,
                 ''--timeout='' @ show_nat timeout @ ''s''])
           (\<lambda>(returncode, _, err).
              if returncode = 0 then
                seq (log_deleted (''namespace/'' @ namespace)) (\<lambda>_. ret True)
              else
                seq (whenE (verbose a)
                       (emit (Error (''Failed to delete namespace '' @ namespace @ '': '' @ err))))
                  (\<lambda>_. ret False)))"

subsection \<open>Prerequisite checks\<close>

fun for_each :: "'x list \<Rightarrow> ('x \<Rightarrow> 'acc \<Rightarrow> ('acc, 'w) prog) \<Rightarrow> 'acc \<Rightarrow> ('acc, 'w) prog" where
  "for_each [] body acc = ret acc"
| "for_each (x # xs) body acc = seq (body x acc) (for_each xs body)"

definition emit_all :: "event list \<Rightarrow> (unit, 'w) prog" where
  "emit_all es s = (Inr (), s\<lparr>trace := trace s @ es\<rparr>)"

definition check_prerequisites :: "'w env \<Rightarrow> args \<Rightarrow> (bool, 'w) prog" where
  "check_prerequisites env a =
     seq (emit (Header ''Checking Prerequisites'')) (\<lambda>_.
     seq (for_each [(''kubectl'', ''kubectl version --client''), (''helm'', ''helm version'')]
            (\<lambda>(tool, version_cmd) all_found.
               seq (run_command env a (split_words version_cmd)) (\<lambda>(returncode, _, _).
                 if returncode = 0 then
                   seq (emit (Success (tool @ '' is installed''))) (\<lambda>_. ret all_found)
                 else
                   seq (emit (Error (tool @ '' is not installed''))) (\<lambda>_. ret False)))
            True) (\<lambda>all_found.
     seq (run_command env a [''kubectl'', ''cluster-info'']) (\<lambda>(returncode, _, _).
       if returncode = 0 then
         seq (emit (Success ''kubectl can connect to cluster'')) (\<lambda>_. ret all_found)
       else
         seq (emit (Error ''kubectl cannot connect to cluster'')) (\<lambda>_. ret False))))"

subsection \<open>Resource listing\<close>

text \<open>The inventory is the source's dictionary: its five keys in insertion order.\<close>

type_synonym inventory = "(string \<times> string list) list"

definition empty_inventory :: inventory where
  "empty_inventory =
     [(''ArgoCD'', []), (''Application'', []), (''Monitoring Stack'', []),
      (''Monitoring Resources'', []), (''Namespaces'', [])]"

definition add_items :: "string \<Rightarrow> string list \<Rightarrow> inventory \<Rightarrow> inventory" where
  "add_items k vs resources =
     map (\<lambda>(k', items). if k' = k then (k', items @ vs) else (k', items)) resources"

definition all_empty :: "inventory \<Rightarrow> bool" where
  "all_empty resources = list_all (\<lambda>v. length v = 0) (map snd resources)"

fun summary_events :: "inventory \<Rightarrow> event list" where
  "summary_events [] = []"
| "summary_events ((category, items) # rest) =
     (if items \<noteq> [] then
        [Line (category @ '':'')] @ map Item (take 10 items) @
        (if length items > 10 then [Line (''  ... and '' @ show_nat (length items - 10) @ '' more'')]
         else []) @
        [Line []]
      else []) @ summary_events rest"

fun summary_total :: "inventory \<Rightarrow> nat" where
  "summary_total [] = 0"
| "summary_total ((category, items) # rest) =
     (if items \<noteq> [] then length items else 0) + summary_total rest"

definition app_kinds :: string where
  "app_kinds = ''all,configmap,secret,pvc,serviceaccount,cronjob,servicemonitor''"

definition app_label :: string where
  "app_label = ''app.kubernetes.io/instance=earthquake-app''"

definition list_resources_to_delete :: "'w env \<Rightarrow> args \<Rightarrow> (inventory, 'w) prog" where
  "list_resources_to_delete env a =
     seq (emit (Header ''Resources to be Deleted'')) (\<lambda>_.
     seq (resource_exists env a ''application'' ''earthquake-app'' (Some ''argocd'')) (\<lambda>ex.
     let resources =
           (if ex then add_items ''ArgoCD'' [''application/earthquake-app -n argocd''] empty_inventory
            else empty_inventory) in
     seq (run_command env a
            [''kubectl'', ''get'', app_kinds, ''-l'', app_label, ''-n'', ''default'', ''-o'', ''name''])
       (\<lambda>(returncode, out, _).
     let resources =
           (if returncode = 0 \<and> strip out \<noteq> []
            then add_items ''Application'' (split_lines (strip out)) resources else resources) in
     seq (helm_release_exists env a ''kube-prometheus-stack'' ''monitoring'') (\<lambda>ex.
     let resources =
           (if ex then add_items ''Monitoring Stack'' [''Helm release: kube-prometheus-stack''] resources
            else resources) in
     seq (for_each [(''servicemonitor'', ''quakewatch-app'', ''default''),
                    (''prometheusrule'', ''quakewatch-alerts'', ''monitoring''),
                    (''configmap'', ''quakewatch-dashboard'', ''monitoring'')]
            (\<lambda>(res_type, name, ns) resources.
               seq (resource_exists env a res_type name (Some ns)) (\<lambda>ex.
                 ret (if ex then add_items ''Monitoring Resources''
                                   [res_type @ ''/'' @ name @ '' -n '' @ ns] resources
                      else resources)))
            resources) (\<lambda>resources.
     seq (for_each [''argocd'', ''monitoring'']
            (\<lambda>ns resources.
               seq (namespace_exists env a ns) (\<lambda>ex.
                 ret (if ex then add_items ''Namespaces'' [''namespace/'' @ ns] resources
                      else resources)))
            resources) (\<lambda>resources.
     seq (emit_all (summary_events resources)) (\<lambda>_.
     if summary_total resources = 0 then
       seq (emit (Info ''No resources found to delete'')) (\<lambda>_. ret resources)
     else
       seq (emit (Line (''Total resources: '' @ show_nat (summary_total resources))))
         (\<lambda>_. seq (emit (Line [])) (\<lambda>_. ret resources)))))))))"

subsection \<open>Cleanup operations\<close>

definition kill_port_forwards :: "'w env \<Rightarrow> args \<Rightarrow> (unit, 'w) prog" where
  "kill_port_forwards env a =
     seq (emit (Header ''Stopping Port-Forward Processes'')) (\<lambda>_.
     seq (run_command env a [''pgrep'', ''-f'', ''kubectl port-forward'']) (\<lambda>(returncode, out, _).
       if returncode = 0 \<and> strip out \<noteq> [] then
         seq (emit (Info (''Found '' @ show_nat (length (split_lines (strip out))) @
                          '' port-forward process(es)''))) (\<lambda>_.
           if \<not> dry_run a then
             seq (run_command env a [''pkill'', ''-f'', ''kubectl port-forward'']) (\<lambda>_.
               emit (Success ''All port-forwards stopped''))
           else ret ())
       else emit (Info ''No port-forward processes running'')))"

definition delete_argocd_application :: "'w env \<Rightarrow> args \<Rightarrow> (unit, 'w) prog" where
  "delete_argocd_application env a =
     seq (emit (Header ''Removing ArgoCD Application'')) (\<lambda>_.
     seq (resource_exists env a ''application'' ''earthquake-app'' (Some ''argocd'')) (\<lambda>ex.
       if ex then
         seq (emit (Info ''Deleting ArgoCD application 'earthquake-app'...'')) (\<lambda>_.
         seq (delete_resource env a ''application'' ''earthquake-app'' (Some ''argocd'') False) (\<lambda>ok.
           if ok then
             seq (emit (Success ''ArgoCD application deleted'')) (\<lambda>_.
               whenE (\<not> dry_run a) (emit (Sleep 3)))
           else ret ()))
       else emit (Info ''ArgoCD application not found'')))"

definition delete_application_resources :: "'w env \<Rightarrow> args \<Rightarrow> (unit, 'w) prog" where
  "delete_application_resources env a =
     seq (emit (Header ''Removing Application Resources'')) (\<lambda>_.
     seq (run_command env a
            [''kubectl'', ''delete'', app_kinds, ''-l'', app_label, ''-n'', ''default'',
             ''--ignore-not-found=true'']) (\<lambda>(returncode, out, _).
     seq (if returncode = 0 then
            seq (emit (Success ''Application resources deleted'')) (\<lambda>_.
              whenE (out \<noteq> [] \<and> verbose a) (emit (Line out)))
          else emit (Warning ''Some application resources may not have been deleted'')) (\<lambda>_.
     seq (delete_resource env a ''servicemonitor'' ''quakewatch-app'' (Some ''default'') False)
       (\<lambda>_. ret ()))))"

definition os_path_exists :: "'w env \<Rightarrow> string \<Rightarrow> (bool, 'w) prog" where
  "os_path_exists env p s = (Inr (path_exists env p (world s)), s)"

definition delete_monitoring_resources :: "'w env \<Rightarrow> args \<Rightarrow> (unit, 'w) prog" where
  "delete_monitoring_resources env a =
     seq (emit (Header ''Removing Monitoring Resources'')) (\<lambda>_.
     for_each [(''monitoring/standalone/servicemonitor.yaml'', ''ServiceMonitor''),
               (''monitoring/standalone/prometheus-alerts.yaml'', ''PrometheusRule''),
               (''monitoring/standalone/grafana-dashboard.yaml'', ''Grafana Dashboard'')]
       (\<lambda>(file_path, description) _.
          seq (os_path_exists env file_path) (\<lambda>present.
            if present then
              seq (run_command env a
                     [''kubectl'', ''delete'', ''-f'', file_path, ''--ignore-not-found=true''])
                (\<lambda>(returncode, _, _).
                   whenE (returncode = 0) (emit (Success (description @ '' deleted''))))
            else if str_in ''servicemonitor'' file_path then
              seq (delete_resource env a ''servicemonitor'' ''quakewatch-app'' (Some ''default'') False)
                (\<lambda>_. ret ())
            else if str_in ''prometheus-alerts'' file_path then
              seq (delete_resource env a ''prometheusrule'' ''quakewatch-alerts'' (Some ''monitoring'') False)
                (\<lambda>_. ret ())
            else if str_in ''grafana-dashboard'' file_path then
              seq (delete_resource env a ''configmap'' ''quakewatch-dashboard'' (Some ''monitoring'') False)
                (\<lambda>_. ret ())
            else ret ()))
       ())"

definition delete_monitoring_stack :: "'w env \<Rightarrow> args \<Rightarrow> (unit, 'w) prog" where
  "delete_monitoring_stack env a =
     seq (emit (Header ''Removing Prometheus & Grafana Stack'')) (\<lambda>_.
     seq (helm_release_exists env a ''kube-prometheus-stack'' ''monitoring'') (\<lambda>ex.
     seq (if ex then
            seq (emit (Info ''Uninstalling kube-prometheus-stack Helm release...'')) (\<lambda>_.
            seq (run_command env a [''helm'', ''uninstall'', ''kube-prometheus-stack'', ''-n'', ''monitoring''])
              (\<lambda>(returncode, _, err).
                 if returncode = 0 then
                   seq (emit (Success ''Helm release uninstalled'')) (\<lambda>_.
                     log_deleted ''helm-release/kube-prometheus-stack'')
                 else emit (Error (''Failed to uninstall Helm release: '' @ err))))
          else emit (Info ''kube-prometheus-stack not installed'')) (\<lambda>_.
     seq (namespace_exists env a ''monitoring'') (\<lambda>ex.
       if ex then
         seq (emit (Info ''Cleaning up PVCs in monitoring namespace...'')) (\<lambda>_.
         seq (run_command env a
                [''kubectl'', ''delete'', ''pvc'', ''--all'', ''-n'', ''monitoring'',
                 ''--ignore-not-found=true'']) (\<lambda>_. ret ()))
       else ret ()))))"

definition quoted :: "string \<Rightarrow> string" where
  "quoted n = [CHR 0x27] @ n @ [CHR 0x27]"

definition delete_namespaces :: "'w env \<Rightarrow> args \<Rightarrow> (unit, 'w) prog" where
  "delete_namespaces env a =
     seq (emit (Header ''Removing Namespaces'')) (\<lambda>_.
     for_each [''argocd'', ''monitoring'']
       (\<lambda>namespace _.
          seq (namespace_exists env a namespace) (\<lambda>ex.
            if ex then
              seq (emit (Info (''Deleting namespace '' @ quoted namespace @
                               '' (this may take a moment)...''))) (\<lambda>_.
              seq (delete_namespace_wait env a namespace 120) (\<lambda>ok.
                if ok then emit (Success (''Namespace '' @ quoted namespace @ '' deleted''))
                else emit (Warning (''Namespace '' @ quoted namespace @
                       '' deletion timed out (may still be deleting in background)''))))
            else emit (Info (''Namespace '' @ quoted namespace @ '' not found''))))
       ())"

subsection \<open>Main cleanup flow\<close>

text \<open>The six deletion phases, in the order \<open>run\<close> calls them.\<close>

definition cleanup_phases :: "'w env \<Rightarrow> args \<Rightarrow> (unit, 'w) prog" where
  "cleanup_phases env a =
     seq (kill_port_forwards env a) (\<lambda>_.
     seq (delete_argocd_application env a) (\<lambda>_.
     seq (delete_application_resources env a) (\<lambda>_.
     seq (delete_monitoring_resources env a) (\<lambda>_.
     seq (delete_monitoring_stack env a) (\<lambda>_.
     delete_namespaces env a)))))"

definition deleted_count :: "(nat, 'w) prog" where
  "deleted_count s = (Inr (length (deleted_resources s)), s)"

definition deleted_list :: "(string list, 'w) prog" where
  "deleted_list s = (Inr (deleted_resources s), s)"

text \<open>
  The summary after the phases. The elapsed wall-clock time the source prints is a
  floating-point reading of the system clock and is left out of the messages.
\<close>

definition print_summary :: "args \<Rightarrow> (unit, 'w) prog" where
  "print_summary a =
     seq (emit (Header ''Cleanup Complete'')) (\<lambda>_.
     seq (if dry_run a then
            seq (emit (Info ''DRY-RUN completed'')) (\<lambda>_.
              emit (Info ''Run without --dry-run to actually delete resources''))
          else
            seq (emit (Success ''Cleanup completed'')) (\<lambda>_.
            seq deleted_count (\<lambda>n.
            seq (emit (Info (''Deleted '' @ show_nat n @ '' resource(s)''))) (\<lambda>_.
            seq deleted_list (\<lambda>ds.
              whenE (verbose a \<and> ds \<noteq> [])
                (seq (emit (Line ''Deleted resources:'')) (\<lambda>_. emit_all (map Item ds)))))))) (\<lambda>_.
     seq (emit (Line [])) (\<lambda>_.
     seq (emit (Info ''k3s is still running. To redeploy: ./build-deploy.sh'')) (\<lambda>_.
     emit (Info ''To stop k3s: sudo systemctl stop k3s'')))))"

text \<open>The opening lines of \<open>run\<close>.\<close>

definition banner :: "args \<Rightarrow> (unit, 'w) prog" where
  "banner a =
     seq (emit (Header ''QuakeWatch Cleanup Script'')) (\<lambda>_.
     whenE (dry_run a)
       (seq (emit (Warning ''DRY-RUN MODE: No resources will be deleted'')) (\<lambda>_.
          emit (Line []))))"

text \<open>
  The confirmation block of \<open>run\<close>: whether the run goes on. A dry run goes on without
  asking; otherwise the answer decides, and a refusal prints the cancellation notice.
\<close>

definition confirm_cleanup :: "'w env \<Rightarrow> args \<Rightarrow> (bool, 'w) prog" where
  "confirm_cleanup env a =
     (if \<not> dry_run a then
        seq (emit_all
               [Line ''This will DELETE all resources listed above'',
                Line ''Resources NOT deleted:'',
                Item ''k3s service (will keep running)'',
                Item ''Prometheus Operator CRDs (shared cluster resources)'',
                Item ''metrics-server (may be used by other apps)'',
                Item ''kubectl config'',
                Item ''Helm repositories'',
                Line []]) (\<lambda>_.
        seq (confirm_action env a ''Proceed with cleanup?'' False) (\<lambda>yes.
          if \<not> yes then seq (emit (Info ''Cleanup cancelled'')) (\<lambda>_. ret False)
          else ret True))
      else ret True)"

text \<open>The body of the \<open>try\<close> block of \<open>run\<close>; \<open>sys.exit(1)\<close> raises \<open>SystemExit 1\<close>.\<close>

definition run_body :: "'w env \<Rightarrow> args \<Rightarrow> (unit, 'w) prog" where
  "run_body env a =
     seq (banner a) (\<lambda>_.
     seq (check_prerequisites env a) (\<lambda>ok.
       if \<not> ok then
         seq (emit (Error ''Prerequisites check failed'')) (\<lambda>_. raise (SystemExit 1))
       else
         seq (list_resources_to_delete env a) (\<lambda>resources.
           if all_empty resources then emit (Success ''Nothing to clean up!'')
           else
             seq (confirm_cleanup env a) (\<lambda>proceed.
               if proceed then
                 seq (cleanup_phases env a) (\<lambda>_. print_summary a)
               else ret ()))))"

text \<open>
  \<open>run\<close>: the \<open>try\<close> block with its two handlers. \<open>SystemExit\<close> is neither a
  \<open>KeyboardInterrupt\<close> nor an \<open>Exception\<close> and passes through.
\<close>

definition run :: "'w env \<Rightarrow> args \<Rightarrow> (unit, 'w) prog" where
  "run env a s =
     (case run_body env a s of
        (Inr u, s') \<Rightarrow> (Inr u, s')
      | (Inl e, s') \<Rightarrow>
          if e = KeyboardInterrupt then
            seq (emit (Line [])) (\<lambda>_.
            seq (emit (Warning ''Cleanup interrupted by user'')) (\<lambda>_. raise (SystemExit 1))) s'
          else if is_Exception e then
            seq (emit (Failure ''Unexpected error: '' e)) (\<lambda>_.
            seq (whenE (verbose a) (emit Traceback)) (\<lambda>_. raise (SystemExit 1))) s'
          else (Inl e, s'))"

text \<open>
  The exit status of the interpreter: 0 when the script runs to its end, the argument of
  \<open>sys.exit\<close> when it is called, 130 on an interrupt nobody catches and 1 on any other
  exception nobody catches.
\<close>

fun exit_status :: "exn + 'a \<Rightarrow> int" where
  "exit_status (Inr x) = 0"
| "exit_status (Inl (SystemExit n)) = n"
| "exit_status (Inl KeyboardInterrupt) = 130"
| "exit_status (Inl e) = 1"

definition initial :: "'w \<Rightarrow> 'w state" where
  "initial w = \<lparr>world = w, trace = [], deleted_resources = []\<rparr>"

text \<open>\<open>main\<close> of cleanup.py on parsed arguments: the exit status and the final state.\<close>

definition cleanup_main :: "'w env \<Rightarrow> args \<Rightarrow> 'w \<Rightarrow> int \<times> 'w state" where
  "cleanup_main env a w = (case run env a (initial w) of (r, s') \<Rightarrow> (exit_status r, s'))"

section \<open>test\_helm\_deployment.py\<close>

record helm_test =
  release_name :: string
  namespace :: string
  helm_chart_path :: string

definition new_helm_test :: "string \<Rightarrow> string \<Rightarrow> helm_test" where
  "new_helm_test release ns =
     \<lparr>release_name = release, namespace = ns, helm_chart_path = ''quackwatch-helm/''\<rparr>"

definition show_int :: "int \<Rightarrow> string" where
  "show_int i = (if i < 0 then ''-'' @ show_nat (nat (- i)) else show_nat (nat i))"

text \<open>
  \<open>HelmDeploymentTest.run_command\<close>: only \<open>CalledProcessError\<close> is caught, and it is
  raised again after the diagnostics; a launch failure is not caught at all.
\<close>

definition run_command_t :: "'w env \<Rightarrow> string list \<Rightarrow> bool \<Rightarrow> (int \<times> string \<times> string, 'w) prog" where
  "run_command_t env cmd check =
     seq (subprocess_run env cmd) (\<lambda>result.
       case result of
         Completed returncode out err \<Rightarrow>
           if check \<and> returncode \<noteq> 0 then
             seq (emit_all [Line (''Command failed: '' @ join '' '' cmd),
                            Line (''Return code: '' @ show_int returncode),
                            Line (''STDOUT: '' @ out),
                            Line (''STDERR: '' @ err)]) (\<lambda>_.
               raise (CalledProcessError returncode))
           else ret (returncode, out, err)
       | LaunchFails msg \<Rightarrow> raise (OSError msg)
       | Interrupted \<Rightarrow> raise KeyboardInterrupt)"

subsection \<open>JSON values as the checks read them\<close>

definition lift :: "exn + 'a \<Rightarrow> ('a, 'w) prog" where
  "lift r s = (r, s)"

definition loads :: "'w env \<Rightarrow> string \<Rightarrow> (json, 'w) prog" where
  "loads env text = (case json_loads env text of None \<Rightarrow> raise JSONDecodeError | Some j \<Rightarrow> ret j)"

text \<open>\<open>value[key]\<close> with a string key: only an object can be indexed so.\<close>

fun jget :: "json \<Rightarrow> string \<Rightarrow> exn + json" where
  "jget (JObj kvs) k = (case map_of kvs k of None \<Rightarrow> Inl KeyError | Some v \<Rightarrow> Inr v)"
| "jget j k = Inl TypeError"

definition jget2 :: "json \<Rightarrow> string \<Rightarrow> string \<Rightarrow> exn + json" where
  "jget2 j k1 k2 = (case jget j k1 of Inl e \<Rightarrow> Inl e | Inr v \<Rightarrow> jget v k2)"

fun json_truthy :: "json \<Rightarrow> bool" where
  "json_truthy JNull = False"
| "json_truthy (JBool b) = b"
| "json_truthy (JNum n) = (n \<noteq> 0)"
| "json_truthy (JStr s) = (s \<noteq> [])"
| "json_truthy (JArr xs) = (xs \<noteq> [])"
| "json_truthy (JObj kvs) = (kvs \<noteq> [])"

text \<open>Numbers are integers here; a Boolean counts as 0 or 1 in comparisons, as in Python.\<close>

fun num_of :: "json \<Rightarrow> int option" where
  "num_of (JNum n) = Some n"
| "num_of (JBool b) = Some (if b then 1 else 0)"
| "num_of j = None"

definition py_gt0 :: "json \<Rightarrow> exn + bool" where
  "py_gt0 j = (case num_of j of None \<Rightarrow> Inl TypeError | Some n \<Rightarrow> Inr (n > 0))"

definition py_eq :: "json \<Rightarrow> json \<Rightarrow> bool" where
  "py_eq x y =
     (case (num_of x, num_of y) of
        (Some a, Some b) \<Rightarrow> a = b
      | (None, None) \<Rightarrow> x = y
      | _ \<Rightarrow> False)"

text \<open>\<open>len(value)\<close>.\<close>

fun json_len :: "json \<Rightarrow> exn + nat" where
  "json_len (JStr s) = Inr (length s)"
| "json_len (JArr xs) = Inr (length xs)"
| "json_len (JObj kvs) = Inr (length kvs)"
| "json_len j = Inl TypeError"

definition assert :: "bool \<Rightarrow> string \<Rightarrow> (unit, 'w) prog" where
  "assert b msg = (if b then ret () else raise (AssertionError msg))"

subsection \<open>The test steps\<close>

definition test_helm_install :: "'w env \<Rightarrow> helm_test \<Rightarrow> (unit, 'w) prog" where
  "test_helm_install env self =
     seq (emit (Line ''Installing Helm chart...'')) (\<lambda>_.
     seq (run_command_t env
            [''helm'', ''upgrade'', ''--install'', release_name self, helm_chart_path self,
             ''--namespace'', namespace self, ''--create-namespace'', ''--wait'', ''--timeout=5m'']
            True) (\<lambda>(returncode, _, err).
     seq (assert (returncode = 0) (''Helm install failed: '' @ err)) (\<lambda>_.
     emit (Line ''Helm chart installed successfully''))))"

definition test_deployment_status :: "'w env \<Rightarrow> helm_test \<Rightarrow> (unit, 'w) prog" where
  "test_deployment_status env self =
     seq (emit (Line ''Checking deployment status...'')) (\<lambda>_.
     seq (run_command_t env
            [''kubectl'', ''get'', ''deployment'', ''quackwatch-helm'', ''-n'', namespace self,
             ''-o'', ''json''] True) (\<lambda>(_, out, _).
     seq (loads env out) (\<lambda>deployment.
     seq (lift (jget2 deployment ''status'' ''replicas'')) (\<lambda>replicas.
     seq (lift (py_gt0 replicas)) (\<lambda>positive.
     seq (assert positive ''No replicas found'') (\<lambda>_.
     seq (lift (jget2 deployment ''status'' ''readyReplicas'')) (\<lambda>ready.
     seq (lift (jget2 deployment ''status'' ''replicas'')) (\<lambda>replicas.
     seq (assert (py_eq ready replicas) ''Not all replicas are ready'') (\<lambda>_.
     seq (lift (jget2 deployment ''status'' ''readyReplicas'')) (\<lambda>ready.
     emit (Report [''Deployment has '', '' ready replicas''] [ready])))))))))))"

definition pod_label :: string where
  "pod_label = ''app.kubernetes.io/instance=quackwatch-helm''"

definition max_attempts :: nat where
  "max_attempts = 30"

text \<open>
  The inner loop of \<open>test_pods_running\<close> over \<open>pods["items"]\<close>: it stops at the first
  pod whose phase is not \<open>Running\<close>. Only a list can hold pods; any other non-empty value
  fails when its first element is indexed or when it is iterated.
\<close>

fun all_running :: "json list \<Rightarrow> exn + bool" where
  "all_running [] = Inr True"
| "all_running (pod # pods) =
     (case jget2 pod ''status'' ''phase'' of
        Inl e \<Rightarrow> Inl e
      | Inr phase \<Rightarrow> if phase \<noteq> JStr ''Running'' then Inr False else all_running pods)"

fun items_all_running :: "json \<Rightarrow> exn + bool" where
  "items_all_running (JArr pods) = all_running pods"
| "items_all_running j = Inl TypeError"

text \<open>
  One pass through the body of the polling loop: it raises, leaves the loop with the pods
  (\<open>Some\<close>), or sleeps two seconds and goes on (\<open>None\<close>).
\<close>

definition poll_pods :: "'w env \<Rightarrow> helm_test \<Rightarrow> nat \<Rightarrow> (json option, 'w) prog" where
  "poll_pods env self attempt =
     seq (run_command_t env
            [''kubectl'', ''get'', ''pods'', ''-l'', pod_label, ''-n'', namespace self, ''-o'', ''json'']
            True) (\<lambda>(_, out, _).
     seq (loads env out) (\<lambda>pods.
     seq (lift (jget pods ''items'')) (\<lambda>items.
       if \<not> json_truthy items then
         seq (emit (Sleep 2)) (\<lambda>_. ret None)
       else
         seq (lift (items_all_running items)) (\<lambda>running.
           if running then
             seq (lift (json_len items)) (\<lambda>n.
             seq (emit (Line (''All '' @ show_nat n @ '' pods are running''))) (\<lambda>_.
             ret (Some items)))
           else
             seq (emit (Line (''Waiting for pods to be ready... (attempt '' @
                              show_nat (attempt + 1) @ ''/'' @ show_nat max_attempts @ '')''))) (\<lambda>_.
             seq (emit (Sleep 2)) (\<lambda>_.
             ret None))))))"

text \<open>The loop \<open>for attempt in range(max_attempts)\<close> with the \<open>raise\<close> that follows it.\<close>

fun pods_loop :: "'w env \<Rightarrow> helm_test \<Rightarrow> nat list \<Rightarrow> (json, 'w) prog" where
  "pods_loop env self [] =
     raise (AssertionError ''Pods did not reach Running state within timeout'')"
| "pods_loop env self (attempt # rest) =
     seq (poll_pods env self attempt) (\<lambda>r.
       case r of Some items \<Rightarrow> ret items | None \<Rightarrow> pods_loop env self rest)"

definition test_pods_running :: "'w env \<Rightarrow> helm_test \<Rightarrow> (json, 'w) prog" where
  "test_pods_running env self =
     seq (emit (Line ''Checking pod status...'')) (\<lambda>_.
     pods_loop env self [0 ..< max_attempts])"

definition test_service_exists :: "'w env \<Rightarrow> helm_test \<Rightarrow> (json, 'w) prog" where
  "test_service_exists env self =
     seq (emit (Line ''Checking service...'')) (\<lambda>_.
     seq (run_command_t env
            [''kubectl'', ''get'', ''service'', ''quackwatch-helm'', ''-n'', namespace self,
             ''-o'', ''json''] True) (\<lambda>(_, out, _).
     seq (loads env out) (\<lambda>service.
     seq (lift (jget2 service ''spec'' ''ports'')) (\<lambda>ports.
     seq (assert (json_truthy ports) ''Service has no ports defined'') (\<lambda>_.
     seq (lift (jget2 service ''spec'' ''ports'')) (\<lambda>ports.
     seq (lift (json_len ports)) (\<lambda>n.
     seq (emit (Line (''Service exists with '' @ show_nat n @ '' ports''))) (\<lambda>_.
     ret service))))))))"

definition first_pod_query :: "helm_test \<Rightarrow> string list" where
  "first_pod_query self =
     [''kubectl'', ''get'', ''pods'', ''-l'', pod_label, ''-n'', namespace self,
      ''-o'', ''jsonpath={.items[0].metadata.name}'']"

definition test_configmap_mount :: "'w env \<Rightarrow> helm_test \<Rightarrow> (unit, 'w) prog" where
  "test_configmap_mount env self =
     seq (emit (Line ''Verifying ConfigMap mount...'')) (\<lambda>_.
     seq (run_command_t env (first_pod_query self) True) (\<lambda>(_, out, _).
     let pod_name = strip out in
     if pod_name = [] then raise (AssertionError ''No pods found for ConfigMap test'')
     else
       seq (run_command_t env
              [''kubectl'', ''exec'', pod_name, ''-n'', namespace self, ''--'', ''ls'', ''/data'']
              False) (\<lambda>(returncode, _, _).
         if returncode = 0 then
           seq (emit (Line ''ConfigMap mounted successfully'')) (\<lambda>_.
           seq (run_command_t env
                  [''kubectl'', ''exec'', pod_name, ''-n'', namespace self, ''--'', ''cat'',
                   ''/data/earthquake.conf''] False) (\<lambda>(returncode, _, _).
             if returncode = 0 then emit (Line ''Configuration file accessible'')
             else emit (Line ''Configuration file not found, but mount exists'')))
         else emit (Line ''ConfigMap mount directory not found''))))"

text \<open>
  \<open>subprocess.Popen\<close>: the process runs in the background under the handle returned;
  a launch failure raises before any process exists.
\<close>

definition subprocess_Popen :: "'w env \<Rightarrow> string list \<Rightarrow> (nat, 'w) prog" where
  "subprocess_Popen env cmd s =
     (case popen env cmd (world s) of
        (Spawned h, w') \<Rightarrow> (Inr h, s\<lparr>world := w', trace := trace s @ [Spawn h cmd]\<rparr>)
      | (SpawnFails msg, w') \<Rightarrow> (Inl (OSError msg), s\<lparr>world := w'\<rparr>))"

definition requests_get :: "'w env \<Rightarrow> string \<Rightarrow> (http_outcome, 'w) prog" where
  "requests_get env url s =
     (case http_get env url (world s) of
        (r, w') \<Rightarrow> (Inr r, s\<lparr>world := w', trace := trace s @ [HttpGet url]\<rparr>))"

text \<open>One probe of an HTTP route; \<open>requests.RequestException\<close> is caught at the probe,
  an interrupt passes.\<close>

definition probe :: "'w env \<Rightarrow> string \<Rightarrow> string \<Rightarrow> string \<Rightarrow> string \<Rightarrow> (unit, 'w) prog" where
  "probe env path ok other failed =
     seq (requests_get env (''http://localhost:8080'' @ path)) (\<lambda>response.
       case response of
         HttpStatus code \<Rightarrow>
           if code = 200 then emit (Line ok)
           else emit (Line (other @ show_nat code))
       | HttpRequestFails msg \<Rightarrow> emit (Line (failed @ msg))
       | HttpInterrupted \<Rightarrow> raise KeyboardInterrupt)"

definition health_checks :: "'w env \<Rightarrow> (unit, 'w) prog" where
  "health_checks env =
     seq (emit (Sleep 3)) (\<lambda>_.
     seq (for_each [''/ping'', ''/health'', ''/status'']
            (\<lambda>endpoint _.
               probe env endpoint
                 (''Health endpoint '' @ endpoint @ '' responding'')
                 (''Health endpoint '' @ endpoint @ '' returned '')
                 (''Health endpoint '' @ endpoint @ '' failed: ''))
            ()) (\<lambda>_.
     probe env ''/''
       ''Main application endpoint responding''
       ''Main endpoint returned ''
       ''Main application endpoint failed: ''))"

definition test_application_health :: "'w env \<Rightarrow> helm_test \<Rightarrow> (unit, 'w) prog" where
  "test_application_health env self =
     seq (emit (Line ''Testing application health...'')) (\<lambda>_.
     seq (run_command_t env (first_pod_query self) True) (\<lambda>(_, out, _).
     let pod_name = strip out in
     if pod_name = [] then raise (AssertionError ''No pods found for health test'')
     else
       seq (subprocess_Popen env
              [''kubectl'', ''port-forward'', pod_name, ''8080:5000'', ''-n'', namespace self])
         (\<lambda>port_forward_process.
            try_finally (health_checks env)
              (seq (emit (Terminate port_forward_process)) (\<lambda>_.
               emit (Wait port_forward_process))))))"

definition test_hpa_exists :: "'w env \<Rightarrow> helm_test \<Rightarrow> (unit, 'w) prog" where
  "test_hpa_exists env self =
     seq (emit (Line ''Checking HPA...'')) (\<lambda>_.
     seq (run_command_t env
            [''kubectl'', ''get'', ''hpa'', ''quackwatch-helm'', ''-n'', namespace self,
             ''-o'', ''json''] False) (\<lambda>(returncode, out, _).
       if returncode = 0 then
         seq (loads env out) (\<lambda>hpa.
         seq (lift (jget2 hpa ''spec'' ''minReplicas'')) (\<lambda>min_replicas.
         seq (lift (jget2 hpa ''spec'' ''maxReplicas'')) (\<lambda>max_replicas.
         emit (Report [''HPA configured: '', ''-'', '' replicas''] [min_replicas, max_replicas]))))
       else emit (Line ''HPA not found or not configured'')))"

definition cleanup :: "'w env \<Rightarrow> helm_test \<Rightarrow> (unit, 'w) prog" where
  "cleanup env self =
     seq (emit (Line ''Cleaning up test deployment...'')) (\<lambda>_.
     seq (run_command_t env
            [''helm'', ''uninstall'', release_name self, ''-n'', namespace self] False)
       (\<lambda>(returncode, _, _).
          if returncode = 0 then emit (Line ''Test deployment cleaned up'')
          else emit (Line ''Cleanup may have failed, check manually'')))"

subsection \<open>The suite\<close>

definition rule_line :: string where
  "rule_line = replicate 50 (CHR ''='')"

text \<open>The body of the \<open>try\<close> block of \<open>run_all_tests\<close>.\<close>

definition suite :: "'w env \<Rightarrow> helm_test \<Rightarrow> (bool, 'w) prog" where
  "suite env self =
     seq (test_helm_install env self) (\<lambda>_.
     seq (test_deployment_status env self) (\<lambda>_.
     seq (test_pods_running env self) (\<lambda>pods.
     seq (test_service_exists env self) (\<lambda>_.
     seq (test_configmap_mount env self) (\<lambda>_.
     seq (test_application_health env self) (\<lambda>_.
     seq (test_hpa_exists env self) (\<lambda>_.
     seq (emit (Line rule_line)) (\<lambda>_.
     seq (emit (Line ''All tests completed successfully!'')) (\<lambda>_.
     ret True)))))))))"

text \<open>The \<open>except Exception\<close> handler of \<open>run_all_tests\<close>.\<close>

definition catch_failure :: "(bool, 'w) prog \<Rightarrow> (bool, 'w) prog" where
  "catch_failure m s =
     (case m s of
        (Inr b, s') \<Rightarrow> (Inr b, s')
      | (Inl e, s') \<Rightarrow>
          if is_Exception e then
            seq (emit (Line rule_line)) (\<lambda>_.
            seq (emit (Failure ''Test failed: '' e)) (\<lambda>_. ret False)) s'
          else (Inl e, s'))"

text \<open>
  \<open>os.getenv("CLEANUP", "true").lower() == "true"\<close>, on the value of the variable
  (\<open>None\<close> when it is unset).
\<close>

definition cleanup_wanted :: "string option \<Rightarrow> bool" where
  "cleanup_wanted v = (lower (case v of None \<Rightarrow> ''true'' | Some x \<Rightarrow> x) = ''true'')"

definition run_all_tests :: "'w env \<Rightarrow> helm_test \<Rightarrow> string option \<Rightarrow> (bool, 'w) prog" where
  "run_all_tests env self cleanup_var =
     seq (emit (Line ''Starting Helm Deployment Test Suite'')) (\<lambda>_.
     seq (emit (Line rule_line)) (\<lambda>_.
     try_finally (catch_failure (suite env self))
       (whenE (cleanup_wanted cleanup_var) (cleanup env self))))"

text \<open>
  \<open>main\<close> of the test script on parsed arguments: \<open>--no-cleanup\<close> sets the variable
  to \<open>false\<close> before the suite runs; the exit status is 0 when the suite reports success
  and 1 when it reports failure.
\<close>

definition helm_test_main ::
  "'w env \<Rightarrow> string \<Rightarrow> string \<Rightarrow> bool \<Rightarrow> string option \<Rightarrow> 'w \<Rightarrow> int \<times> 'w state" where
  "helm_test_main env release ns no_cleanup getenv_cleanup w =
     (let cleanup_var = (if no_cleanup then Some ''false'' else getenv_cleanup) in
      case run_all_tests env (new_helm_test release ns) cleanup_var (initial w) of
        (Inr success, s') \<Rightarrow> ((if success then 0 else 1), s')
      | (Inl e, s') \<Rightarrow> (exit_status (Inl e :: exn + unit), s'))"

text \<open>\<open>TestHelmDeployment.teardown_class\<close> of the pytest integration.\<close>

definition teardown_class :: "'w env \<Rightarrow> string option \<Rightarrow> (unit, 'w) prog" where
  "teardown_class env cleanup_var =
     whenE (cleanup_wanted cleanup_var) (cleanup env (new_helm_test ''quackwatch-helm'' ''default''))"

section \<open>Traces of a run\<close>

text \<open>
  The events a program appends to the trace, and the programs that append only events of
  a given kind; the theorems below are stated on these.
\<close>

definition new_events :: "('a, 'w) prog \<Rightarrow> 'w state \<Rightarrow> event list" where
  "new_events m s = drop (length (trace s)) (trace (snd (m s)))"

definition emits :: "(event \<Rightarrow> bool) \<Rightarrow> ('a, 'w) prog \<Rightarrow> bool" where
  "emits good m = (\<forall>s. \<exists>t. trace (snd (m s)) = trace s @ t \<and> list_all good t)"

abbreviation grows :: "('a, 'w) prog \<Rightarrow> bool" where
  "grows m \<equiv> emits (\<lambda>_. True) m"

section \<open>Concrete environments and arguments\<close>

text \<open>
  An environment with no state in which every command always does the same thing, no
  file exists, nothing can be spawned and no HTTP route answers; and two argument sets.
  They serve to run the model on concrete inputs.
\<close>

definition static_env :: "(string list \<Rightarrow> outcome) \<Rightarrow> unit env" where
  "static_env respond =
     \<lparr>launch = (\<lambda>cmd w. (respond cmd, w)),
      read_input = (\<lambda>w. (InputEOF, w)),
      path_exists = (\<lambda>p w. False),
      popen = (\<lambda>cmd w. (SpawnFails ''No such file or directory'', w)),
      http_get = (\<lambda>url w. (HttpRequestFails ''Connection refused'', w)),
      json_loads = (\<lambda>text. None)\<rparr>"

definition real_args :: args where
  "real_args = \<lparr>opt_all = True, dry_run = False, verbose = False\<rparr>"



section \<open>Notions the claims are stated with\<close>


fun execs :: "event list \<Rightarrow> string list list" where
  "execs [] = []"
| "execs (Exec cmd # es) = cmd # execs es"
| "execs (e # es) = execs es"


fun is_process_event :: "event \<Rightarrow> bool" where
  "is_process_event (Spawn h cmd) = True"
| "is_process_event (Terminate h) = True"
| "is_process_event (Wait h) = True"
| "is_process_event e = False"

definition port_forward_cmd :: "helm_test \<Rightarrow> string \<Rightarrow> string list" where
  "port_forward_cmd self pod_name =
     [''kubectl'', ''port-forward'', pod_name, ''8080:5000'', ''-n'', namespace self]"

definition interrupted_env :: "unit env" where
  "interrupted_env =
     \<lparr>launch = (\<lambda>cmd w. (Completed 0 ''quackwatch-helm-7d9f'' [], w)),
      read_input = (\<lambda>w. (InputEOF, w)),
      path_exists = (\<lambda>p w. False),
      popen = (\<lambda>cmd w. (Spawned 4242, w)),
      http_get = (\<lambda>url w. (if url = ''http://localhost:8080/health'' then HttpInterrupted
                              else HttpStatus 200, w)),
      json_loads = (\<lambda>text. None)\<rparr>"






fun sleeps :: "event list \<Rightarrow> nat list" where
  "sleeps [] = []"
| "sleeps (Sleep n # es) = n # sleeps es"
| "sleeps (e # es) = sleeps es"













text \<open>Two pods, the second of which starts later than the first; and a cluster that
  answers the first query with an error and shows both pods running from then on.\<close>

definition pod_in :: "string \<Rightarrow> json" where
  "pod_in phase = JObj [(''status'', JObj [(''phase'', JStr phase)])]"






text \<open>A program that raises only exceptions of a given kind.\<close>

definition raises_only :: "(exn \<Rightarrow> bool) \<Rightarrow> ('a, 'w) prog \<Rightarrow> bool" where
  "raises_only allowed m = (\<forall>s e. fst (m s) = Inl e \<longrightarrow> allowed e)"

text \<open>The state in which \<open>run\<close> calls the prerequisite check: after the banner.\<close>

definition started :: "args \<Rightarrow> 'w \<Rightarrow> 'w state" where
  "started a w = snd (banner a (initial w))"

text \<open>The user cancels at the confirmation prompt: the prerequisite check passes, the
  inventory is not empty, and the confirmation block reports a refusal.\<close>

definition cancelled :: "'w env \<Rightarrow> args \<Rightarrow> 'w \<Rightarrow> bool" where
  "cancelled env a w =
     (let s1 = started a w;
          s2 = snd (check_prerequisites env a s1);
          s3 = snd (list_resources_to_delete env a s2)
      in fst (check_prerequisites env a s1) = Inr True \<and>
         (case fst (list_resources_to_delete env a s2) of
            Inl e \<Rightarrow> False | Inr resources \<Rightarrow> \<not> all_empty resources) \<and>
         fst (confirm_cleanup env a s3) = Inr False)"

text \<open>Any exception but \<open>SystemExit\<close>.\<close>

definition not_exit :: "exn \<Rightarrow> bool" where
  "not_exit e = (\<forall>n. e \<noteq> SystemExit n)"

text \<open>The state in which \<open>run_all_tests\<close> enters its \<open>try\<close> block.\<close>

definition suite_start :: "'w \<Rightarrow> 'w state" where
  "suite_start w =
     \<lparr>world = w, trace = [Line ''Starting Helm Deployment Test Suite'', Line rule_line],
      deleted_resources = []\<rparr>"

text \<open>The only exceptions that can cut short the steps of cleanup.py below \<open>run\<close>.\<close>

fun interruption :: "exn \<Rightarrow> bool" where
  "interruption KeyboardInterrupt = True"
| "interruption EOFError = True"
| "interruption e = False"

text \<open>The three ways the teardown run ends with code 1: the prerequisite check returns
  \<open>False\<close>; the body of \<open>run\<close> is cut short by the operator's interrupt; the body
  raises an error (an \<open>Exception\<close>).\<close>

definition prerequisites_failed :: "'w env \<Rightarrow> args \<Rightarrow> 'w \<Rightarrow> bool" where
  "prerequisites_failed env a w = (fst (check_prerequisites env a (started a w)) = Inr False)"

definition interrupted :: "'w env \<Rightarrow> args \<Rightarrow> 'w \<Rightarrow> bool" where
  "interrupted env a w = (fst (run_body env a (initial w)) = Inl KeyboardInterrupt)"

definition unexpected_error :: "'w env \<Rightarrow> args \<Rightarrow> 'w \<Rightarrow> bool" where
  "unexpected_error env a w =
     (case fst (run_body env a (initial w)) of Inl e \<Rightarrow> is_Exception e | Inr u \<Rightarrow> False)"

text \<open>The state after the \<open>try\<close> and \<open>except\<close> blocks of \<open>run_all_tests\<close>,
  and the outcome of its \<open>finally\<close> block there.\<close>

definition after_suite :: "'w env \<Rightarrow> helm_test \<Rightarrow> 'w \<Rightarrow> 'w state" where
  "after_suite env self w = snd (catch_failure (suite env self) (suite_start w))"

definition final_cleanup :: "'w env \<Rightarrow> helm_test \<Rightarrow> string option \<Rightarrow> 'w \<Rightarrow> exn + unit" where
  "final_cleanup env self cleanup_var w =
     fst (whenE (cleanup_wanted cleanup_var) (cleanup env self) (after_suite env self w))"

text \<open>Arguments with which the teardown asks before deleting, and a cluster on which every
  command succeeds with empty output while the prompt is answered as given.\<close>

definition asking_args :: args where
  "asking_args = \<lparr>opt_all = False, dry_run = False, verbose = False\<rparr>"

definition prompt_env :: "input_outcome \<Rightarrow> unit env" where
  "prompt_env answer =
     \<lparr>launch = (\<lambda>cmd w. (Completed 0 [] [], w)),
      read_input = (\<lambda>w. (answer, w)),
      path_exists = (\<lambda>p w. False),
      popen = (\<lambda>cmd w. (SpawnFails ''No such file or directory'', w)),
      http_get = (\<lambda>url w. (HttpRequestFails ''Connection refused'', w)),
      json_loads = (\<lambda>text. None)\<rparr>"

text \<open>A cluster with the release deployed: each query prints a pod name and the JSON document
  read from it shows the given number of replicas, all ready, and one running pod; the
  outcome of \<open>helm uninstall\<close> is a parameter.\<close>

definition cluster_doc :: "int \<Rightarrow> json" where
  "cluster_doc replicas =
     JObj [(''status'', JObj [(''replicas'', JNum replicas), (''readyReplicas'', JNum replicas)]),
           (''items'', JArr [pod_in ''Running'']),
           (''spec'', JObj [(''ports'', JArr [JNum 80]), (''minReplicas'', JNum 1),
                           (''maxReplicas'', JNum 3)])]"

definition cluster_env :: "int \<Rightarrow> outcome \<Rightarrow> unit env" where
  "cluster_env replicas uninstall =
     \<lparr>launch = (\<lambda>cmd w. (if take 2 cmd = [''helm'', ''uninstall''] then uninstall
                            else Completed 0 ''quackwatch-helm-7d9f'' [], w)),
      read_input = (\<lambda>w. (InputEOF, w)),
      path_exists = (\<lambda>p w. False),
      popen = (\<lambda>cmd w. (Spawned 4242, w)),
      http_get = (\<lambda>url w. (HttpStatus 200, w)),
      json_loads = (\<lambda>text. Some (cluster_doc replicas))\<rparr>"

section \<open>Rules for traces\<close>

lemma emits_trace: "emits good m \<Longrightarrow> trace (snd (m s)) = trace s @ new_events m s"
  unfolding emits_def new_events_def by (metis append_eq_conv_conj)

lemma emits_good: "emits good m \<Longrightarrow> list_all good (new_events m s)"
  unfolding emits_def new_events_def by (metis append_eq_conv_conj)

lemma emits_grows: "emits good m \<Longrightarrow> grows m"
  unfolding emits_def by (metis list.pred_True)

lemma grows_trace: "grows m \<Longrightarrow> trace (snd (m s)) = trace s @ new_events m s"
  by (rule emits_trace)

lemma emitsI:
  assumes "\<And>s. \<exists>t. trace (snd (m s)) = trace s @ t \<and> list_all good t"
  shows "emits good m"
  using assms unfolding emits_def by blast

lemma emits_ret [intro!, simp]: "emits good (ret x)"
  by (simp add: emits_def ret_def)

lemma emits_raise [intro!, simp]: "emits good (raise e)"
  by (simp add: emits_def raise_def)

lemma emits_lift [intro!, simp]: "emits good (lift r)"
  by (simp add: emits_def lift_def)

lemma emits_emit [intro!]: "good e \<Longrightarrow> emits good (emit e)"
  by (simp add: emits_def emit_def)

lemma emits_emit_all [intro!]: "list_all good es \<Longrightarrow> emits good (emit_all es)"
  by (simp add: emits_def emit_all_def)

lemma emits_seq [intro!]:
  assumes "emits good m" and "\<And>x. emits good (f x)"
  shows "emits good (seq m f)"
proof (rule emitsI)
  fix s
  obtain r s1 where ms: "m s = (r, s1)" by (cases "m s")
  from assms(1) obtain t1 where t1: "trace s1 = trace s @ t1" "list_all good t1"
    unfolding emits_def using ms by (metis snd_conv)
  show "\<exists>t. trace (snd (seq m f s)) = trace s @ t \<and> list_all good t"
  proof (cases r)
    case (Inl e)
    then show ?thesis using ms t1 by (simp add: seq_def)
  next
    case (Inr x)
    from assms(2)[of x] obtain t2 where "trace (snd (f x s1)) = trace s1 @ t2" "list_all good t2"
      unfolding emits_def by blast
    then show ?thesis using ms t1 Inr by (simp add: seq_def)
  qed
qed

lemma new_events_seq:
  assumes "grows m" and "\<And>x. grows (f x)"
  shows "new_events (seq m f) s =
         new_events m s @ (case fst (m s) of Inl e \<Rightarrow> [] | Inr x \<Rightarrow> new_events (f x) (snd (m s)))"
proof -
  obtain r s1 where ms: "m s = (r, s1)" by (cases "m s")
  have t1: "trace s1 = trace s @ new_events m s" using grows_trace[OF assms(1), of s] ms by simp
  show ?thesis
  proof (cases r)
    case (Inl e)
    then show ?thesis using ms by (simp add: seq_def new_events_def)
  next
    case (Inr x)
    have t2: "trace (snd (f x s1)) = trace s1 @ new_events (f x) s1" using grows_trace[OF assms(2)] .
    have "seq m f s = f x s1" using ms Inr by (simp add: seq_def)
    then have "new_events (seq m f) s = drop (length (trace s)) (trace (snd (f x s1)))"
      by (simp add: new_events_def)
    also have "\<dots> = drop (length (trace s)) (trace s @ new_events m s @ new_events (f x) s1)"
      by (simp only: t2 t1 append_assoc)
    also have "\<dots> = new_events m s @ new_events (f x) s1" by simp
    finally show ?thesis using ms Inr by simp
  qed
qed

lemma emits_whenE [intro!]: "(b \<Longrightarrow> emits good m) \<Longrightarrow> emits good (whenE b m)"
  by (simp add: whenE_def)

lemma emits_if [intro!]:
  "(b \<Longrightarrow> emits good m) \<Longrightarrow> (\<not> b \<Longrightarrow> emits good n) \<Longrightarrow> emits good (if b then m else n)"
  by simp

lemma emits_case_prod [intro!]:
  "(\<And>a b. emits good (f a b)) \<Longrightarrow> emits good (case p of (a, b) \<Rightarrow> f a b)"
  by (cases p) simp

lemma emits_case_prod_app [intro!]:
  "(\<And>a b. emits good (f a b x)) \<Longrightarrow> emits good ((case p of (a, b) \<Rightarrow> f a b) x)"
  by (cases p) simp

lemma emits_let [intro!]: "emits good (f v) \<Longrightarrow> emits good (Let v f)"
  by simp

lemma emits_for_each [intro!]:
  "(\<And>x acc. emits good (body x acc)) \<Longrightarrow> emits good (for_each xs body acc)"
  by (induction xs arbitrary: acc) auto

lemma emits_try_finally [intro!]:
  assumes "emits good m" and "emits good h"
  shows "emits good (try_finally m h)"
proof (rule emitsI)
  fix s
  obtain r s1 where ms: "m s = (r, s1)" by (cases "m s")
  obtain r2 s2 where hs: "h s1 = (r2, s2)" by (cases "h s1")
  from assms(1) obtain t1 where t1: "trace s1 = trace s @ t1" "list_all good t1"
    unfolding emits_def using ms by (metis snd_conv)
  from assms(2) obtain t2 where t2: "trace s2 = trace s1 @ t2" "list_all good t2"
    unfolding emits_def using hs by (metis snd_conv)
  have "snd (try_finally m h s) = s2"
    using ms hs by (simp add: try_finally_def split: sum.splits)
  then show "\<exists>t. trace (snd (try_finally m h s)) = trace s @ t \<and> list_all good t"
    using t1 t2 by simp
qed

lemma emits_subprocess_run [intro!]: "good (Exec cmd) \<Longrightarrow> emits good (subprocess_run env cmd)"
  by (simp add: emits_def subprocess_run_def split: prod.splits)

lemma emits_input [intro!]: "good (Prompt p) \<Longrightarrow> emits good (input env p)"
  by (simp add: emits_def input_def Let_def split: prod.splits input_outcome.splits)

lemma emits_log_deleted [intro!, simp]: "emits good (log_deleted r)"
  by (simp add: emits_def log_deleted_def)

lemma emits_os_path_exists [intro!, simp]: "emits good (os_path_exists env p)"
  by (simp add: emits_def os_path_exists_def)

lemma emits_deleted_count [intro!, simp]: "emits good deleted_count"
  by (simp add: emits_def deleted_count_def)

lemma emits_deleted_list [intro!, simp]: "emits good deleted_list"
  by (simp add: emits_def deleted_list_def)

lemma emits_Popen [intro!]: "(\<And>h. good (Spawn h cmd)) \<Longrightarrow> emits good (subprocess_Popen env cmd)"
  by (simp add: emits_def subprocess_Popen_def split: prod.splits popen_outcome.splits)

lemma emits_requests_get [intro!]: "good (HttpGet url) \<Longrightarrow> emits good (requests_get env url)"
  by (simp add: emits_def requests_get_def split: prod.splits)

lemma emits_loads [intro!, simp]: "emits good (loads env text)"
  by (simp add: loads_def split: option.splits)

lemma emits_assert [intro!, simp]: "emits good (assert b msg)"
  by (simp add: assert_def)

lemma emits_case_outcome [intro!]:
  "(\<And>rc out err. emits good (f rc out err)) \<Longrightarrow> (\<And>m. emits good (g m)) \<Longrightarrow> emits good h \<Longrightarrow>
   emits good (case r of Completed rc out err \<Rightarrow> f rc out err | LaunchFails m \<Rightarrow> g m | Interrupted \<Rightarrow> h)"
  by (cases r) simp_all

lemma emits_case_option [intro!]:
  "emits good n \<Longrightarrow> (\<And>x. emits good (f x)) \<Longrightarrow>
   emits good (case r of None \<Rightarrow> n | Some x \<Rightarrow> f x)"
  by (cases r) simp_all

lemma emits_case_http [intro!]:
  "(\<And>c. emits good (f c)) \<Longrightarrow> (\<And>m. emits good (g m)) \<Longrightarrow> emits good h \<Longrightarrow>
   emits good (case r of HttpStatus c \<Rightarrow> f c | HttpRequestFails m \<Rightarrow> g m | HttpInterrupted \<Rightarrow> h)"
  by (cases r) simp_all

lemmas emits_rules =
  emits_seq emits_whenE emits_if emits_emit emits_emit_all emits_ret emits_raise emits_lift
  emits_case_prod emits_case_prod_app emits_let emits_for_each emits_try_finally emits_subprocess_run emits_input
  emits_log_deleted emits_os_path_exists emits_deleted_count emits_deleted_list emits_Popen
  emits_requests_get emits_loads emits_assert emits_case_outcome emits_case_http
  emits_case_option

text \<open>What the command runner of cleanup.py adds to the trace, whatever the command does.\<close>

lemma emits_run_command:
  assumes "verbose a \<Longrightarrow> good (Echo cmd)"
    and "dry_run a \<and> suppressed cmd \<Longrightarrow> good (DryRun cmd)"
    and "\<not> (dry_run a \<and> suppressed cmd) \<Longrightarrow> good (Exec cmd)"
  shows "emits good (run_command env a cmd)"
  unfolding run_command_def using assms by (intro emits_rules) auto

lemma grows_run_command [simp]: "grows (run_command env a cmd)"
  by (rule emits_run_command) simp_all

lemma new_events_ret [simp]: "new_events (ret x) s = []"
  by (simp add: new_events_def ret_def)

lemma new_events_raise [simp]: "new_events (raise e) s = []"
  by (simp add: new_events_def raise_def)

lemma new_events_lift [simp]: "new_events (lift r) s = []"
  by (simp add: new_events_def lift_def)

lemma new_events_emit [simp]: "new_events (emit e) s = [e]"
  by (simp add: new_events_def emit_def)

lemma new_events_emit_all [simp]: "new_events (emit_all es) s = es"
  by (simp add: new_events_def emit_all_def)

lemma new_events_log_deleted [simp]: "new_events (log_deleted r) s = []"
  by (simp add: new_events_def log_deleted_def)

lemma new_events_os_path_exists [simp]: "new_events (os_path_exists env p) s = []"
  by (simp add: new_events_def os_path_exists_def)

lemma new_events_subprocess_run [simp]: "new_events (subprocess_run env cmd) s = [Exec cmd]"
  by (simp add: new_events_def subprocess_run_def split: prod.splits)


lemma new_events_try_finally:
  assumes "grows m" and "grows h"
  shows "new_events (try_finally m h) s = new_events m s @ new_events h (snd (m s))"
proof -
  obtain r s1 where ms: "m s = (r, s1)" by (cases "m s")
  obtain r2 s2 where hs: "h s1 = (r2, s2)" by (cases "h s1")
  have t1: "trace s1 = trace s @ new_events m s" using grows_trace[OF assms(1), of s] ms by simp
  have t2: "trace s2 = trace s1 @ new_events h s1" using grows_trace[OF assms(2), of s1] hs by simp
  have "snd (try_finally m h s) = s2"
    using ms hs by (simp add: try_finally_def split: sum.splits)
  then have "new_events (try_finally m h) s = drop (length (trace s)) (trace s2)"
    by (simp add: new_events_def)
  also have "\<dots> = drop (length (trace s)) (trace s @ new_events m s @ new_events h s1)"
    by (simp only: t2 t1 append_assoc)
  also have "\<dots> = new_events m s @ new_events h s1" by simp
  finally show ?thesis using ms by simp
qed

section \<open>Every program only appends to the trace\<close>

lemma grows_input [simp]: "grows (input env p)"
  by (intro emits_rules) simp

lemma grows_confirm_action [simp]: "grows (confirm_action env a msg d)"
  unfolding confirm_action_def by (intro emits_rules grows_input) simp_all

lemma grows_namespace_exists [simp]: "grows (namespace_exists env a n)"
  unfolding namespace_exists_def by (intro emits_rules grows_run_command)

lemma grows_resource_exists [simp]: "grows (resource_exists env a k n ns)"
  unfolding resource_exists_def by (intro emits_rules grows_run_command)

lemma grows_helm_release_exists [simp]: "grows (helm_release_exists env a r n)"
  unfolding helm_release_exists_def by (intro emits_rules grows_run_command)

lemma grows_delete_resource [simp]: "grows (delete_resource env a k n ns w)"
  unfolding delete_resource_def by (intro emits_rules grows_run_command) simp_all

lemma grows_delete_namespace_wait [simp]: "grows (delete_namespace_wait env a n t)"
  unfolding delete_namespace_wait_def
  by (intro emits_rules grows_run_command grows_namespace_exists) simp_all

lemma grows_check_prerequisites [simp]: "grows (check_prerequisites env a)"
  unfolding check_prerequisites_def by (intro emits_rules grows_run_command) simp_all

lemma grows_list_resources_to_delete [simp]: "grows (list_resources_to_delete env a)"
  unfolding list_resources_to_delete_def
  by (intro emits_rules grows_run_command grows_namespace_exists grows_resource_exists
        grows_helm_release_exists) (simp_all add: list.pred_True)

lemma grows_kill_port_forwards [simp]: "grows (kill_port_forwards env a)"
  unfolding kill_port_forwards_def by (intro emits_rules grows_run_command) simp_all

lemma grows_delete_argocd_application [simp]: "grows (delete_argocd_application env a)"
  unfolding delete_argocd_application_def
  by (intro emits_rules grows_resource_exists grows_delete_resource) simp_all

lemma grows_delete_application_resources [simp]: "grows (delete_application_resources env a)"
  unfolding delete_application_resources_def
  by (intro emits_rules grows_run_command grows_delete_resource) simp_all

lemma grows_delete_monitoring_resources [simp]: "grows (delete_monitoring_resources env a)"
  unfolding delete_monitoring_resources_def
  by (intro emits_rules grows_run_command grows_delete_resource) simp_all

lemma grows_delete_monitoring_stack [simp]: "grows (delete_monitoring_stack env a)"
  unfolding delete_monitoring_stack_def
  by (intro emits_rules grows_run_command grows_helm_release_exists grows_namespace_exists)
    simp_all

lemma grows_delete_namespaces [simp]: "grows (delete_namespaces env a)"
  unfolding delete_namespaces_def
  by (intro emits_rules grows_namespace_exists grows_delete_namespace_wait) simp_all

lemma grows_cleanup_phases [simp]: "grows (cleanup_phases env a)"
  unfolding cleanup_phases_def
  by (intro emits_rules grows_kill_port_forwards grows_delete_argocd_application
        grows_delete_application_resources grows_delete_monitoring_resources
        grows_delete_monitoring_stack grows_delete_namespaces)

lemma grows_print_summary [simp]: "grows (print_summary a)"
  unfolding print_summary_def by (intro emits_rules) (simp_all add: list.pred_True)

lemma grows_banner [simp]: "grows (banner a)"
  unfolding banner_def by (intro emits_rules) simp_all

lemma grows_confirm_cleanup [simp]: "grows (confirm_cleanup env a)"
  unfolding confirm_cleanup_def by (intro emits_rules grows_confirm_action) simp_all

lemma grows_run_body [simp]: "grows (run_body env a)"
  unfolding run_body_def
  by (intro emits_rules grows_banner grows_check_prerequisites grows_list_resources_to_delete
        grows_confirm_cleanup grows_cleanup_phases grows_print_summary) simp_all

lemma emits_run:
  assumes "emits good (run_body env a)"
    and "good (Line [])" and "good (Warning ''Cleanup interrupted by user'')"
    and "\<And>e. good (Failure ''Unexpected error: '' e)" and "good Traceback"
  shows "emits good (run env a)"
proof (rule emitsI)
  fix s
  obtain r s1 where b: "run_body env a s = (r, s1)" by (cases "run_body env a s")
  from assms(1) obtain t1 where t1: "trace s1 = trace s @ t1" "list_all good t1"
    unfolding emits_def using b by (metis snd_conv)
  show "\<exists>t. trace (snd (run env a s)) = trace s @ t \<and> list_all good t"
    using b t1 assms(2-)
    by (cases r) (auto simp: run_def seq_def emit_def raise_def whenE_def ret_def)
qed

lemma grows_run [simp]: "grows (run env a)"
  by (rule emits_run) simp_all

lemma emits_run_command_t:
  assumes "good (Exec cmd)" and "\<And>l. good (Line l)"
  shows "emits good (run_command_t env cmd check)"
  unfolding run_command_t_def using assms by (intro emits_rules) auto

lemma grows_run_command_t [simp]: "grows (run_command_t env cmd check)"
  by (rule emits_run_command_t) simp_all

lemma grows_test_helm_install [simp]: "grows (test_helm_install env self)"
  unfolding test_helm_install_def by (intro emits_rules grows_run_command_t) simp_all

lemma grows_test_deployment_status [simp]: "grows (test_deployment_status env self)"
  unfolding test_deployment_status_def by (intro emits_rules grows_run_command_t) simp_all

lemma emits_poll_pods:
  assumes "\<And>c. good (Exec c)" and "\<And>l. good (Line l)" and "\<And>n. good (Sleep n)"
  shows "emits good (poll_pods env self attempt)"
  unfolding poll_pods_def using assms by (intro emits_rules emits_run_command_t) auto

lemma emits_pods_loop:
  assumes "\<And>c. good (Exec c)" and "\<And>l. good (Line l)" and "\<And>n. good (Sleep n)"
  shows "emits good (pods_loop env self attempts)"
proof (induction attempts)
  case Nil
  show ?case by simp
next
  case (Cons attempt rest)
  show ?case
    unfolding pods_loop.simps using assms Cons
    by (intro emits_rules emits_poll_pods) auto
qed

lemma grows_poll_pods [simp]: "grows (poll_pods env self attempt)"
  by (rule emits_poll_pods) simp_all

lemma grows_pods_loop [simp]: "grows (pods_loop env self attempts)"
  by (rule emits_pods_loop) simp_all

lemma grows_test_pods_running [simp]: "grows (test_pods_running env self)"
  unfolding test_pods_running_def by (intro emits_rules grows_pods_loop) simp_all

lemma grows_test_service_exists [simp]: "grows (test_service_exists env self)"
  unfolding test_service_exists_def by (intro emits_rules grows_run_command_t) simp_all

lemma grows_test_configmap_mount [simp]: "grows (test_configmap_mount env self)"
  unfolding test_configmap_mount_def by (intro emits_rules grows_run_command_t) simp_all

lemma emits_probe:
  assumes "\<And>u. good (HttpGet u)" and "\<And>l. good (Line l)"
  shows "emits good (probe env path ok other failed)"
  unfolding probe_def using assms by (intro emits_rules) auto

lemma emits_health_checks:
  assumes "\<And>u. good (HttpGet u)" and "\<And>l. good (Line l)" and "good (Sleep 3)"
  shows "emits good (health_checks env)"
  unfolding health_checks_def using assms by (intro emits_rules emits_probe) auto

lemma grows_health_checks [simp]: "grows (health_checks env)"
  by (rule emits_health_checks) simp_all

lemma grows_test_application_health [simp]: "grows (test_application_health env self)"
  unfolding test_application_health_def
  by (intro emits_rules grows_run_command_t grows_health_checks) simp_all

lemma grows_test_hpa_exists [simp]: "grows (test_hpa_exists env self)"
  unfolding test_hpa_exists_def by (intro emits_rules grows_run_command_t) simp_all

lemma grows_cleanup [simp]: "grows (cleanup env self)"
  unfolding cleanup_def by (intro emits_rules grows_run_command_t) simp_all

lemma grows_suite [simp]: "grows (suite env self)"
  unfolding suite_def
  by (intro emits_rules grows_test_helm_install grows_test_deployment_status
        grows_test_pods_running grows_test_service_exists grows_test_configmap_mount
        grows_test_application_health grows_test_hpa_exists) simp_all

lemma emits_catch_failure:
  assumes "emits good m" and "\<And>l. good (Line l)" and "\<And>e. good (Failure ''Test failed: '' e)"
  shows "emits good (catch_failure m)"
proof (rule emitsI)
  fix s
  obtain r s1 where b: "m s = (r, s1)" by (cases "m s")
  from assms(1) obtain t1 where t1: "trace s1 = trace s @ t1" "list_all good t1"
    unfolding emits_def using b by (metis snd_conv)
  show "\<exists>t. trace (snd (catch_failure m s)) = trace s @ t \<and> list_all good t"
    using b t1 assms(2,3)
    by (cases r) (auto simp: catch_failure_def seq_def emit_def ret_def)
qed

lemma grows_catch_failure [simp]: "grows m \<Longrightarrow> grows (catch_failure m)"
  by (rule emits_catch_failure) simp_all

lemma grows_run_all_tests [simp]: "grows (run_all_tests env self v)"
  unfolding run_all_tests_def
  by (intro emits_rules grows_catch_failure grows_suite grows_cleanup) simp_all

lemma grows_teardown_class [simp]: "grows (teardown_class env v)"
  unfolding teardown_class_def by (intro emits_rules grows_cleanup)

section \<open>Basic facts of the model\<close>

lemma lower_TRUE: "lower ''TRUE'' = ''true''" by code_simp
lemma lower_True: "lower ''True'' = ''true''" by code_simp
lemma lower_true: "lower ''true'' = ''true''" by code_simp

lemma emit_simps [simp]:
  "fst (emit e s) = Inr ()" "snd (emit e s) = s\<lparr>trace := trace s @ [e]\<rparr>"
  "fst (emit_all es s) = Inr ()" "snd (emit_all es s) = s\<lparr>trace := trace s @ es\<rparr>"
  "fst (ret x s) = Inr x" "snd (ret x s) = s"
  "fst (raise ex s) = Inl ex" "snd (raise ex s) = s"
  "fst (lift r s) = r" "snd (lift r s) = s"
  by (simp_all add: emit_def emit_all_def ret_def raise_def lift_def)

lemmas grows_rules = emits_rules [where good = "\<lambda>_. True", simplified]

lemma new_events_run_command_t:
  "new_events (run_command_t env cmd check) s =
     Exec cmd #
     (case fst (launch env cmd (world s)) of
        Completed rc out err \<Rightarrow>
          if check \<and> rc \<noteq> 0
          then [Line (''Command failed: '' @ join '' '' cmd), Line (''Return code: '' @ show_int rc),
                Line (''STDOUT: '' @ out), Line (''STDERR: '' @ err)]
          else []
      | _ \<Rightarrow> [])"
proof -
  obtain r w' where l: "launch env cmd (world s) = (r, w')" by (cases "launch env cmd (world s)")
  show ?thesis
    by (cases r)
      (simp_all add: l new_events_def run_command_t_def seq_def subprocess_run_def emit_all_def
        raise_def ret_def)
qed

lemma cleanup_events:
  "\<exists>rest. new_events (cleanup env self) s =
     [Line ''Cleaning up test deployment...'',
      Exec [''helm'', ''uninstall'', release_name self, ''-n'', namespace self]] @ rest"
  unfolding cleanup_def
  by (simp add: new_events_seq grows_rules new_events_run_command_t)



lemma execs_append [simp]: "execs (xs @ ys) = execs xs @ execs ys"
  by (induction xs rule: execs.induct) simp_all

lemma run_command_result:
  assumes "launch env cmd (world s) = (r, w')" and "\<not> (dry_run a \<and> (cmd = [] \<or> suppressed cmd))"
  shows "fst (run_command env a cmd s) =
           (case r of Completed rc out err \<Rightarrow> Inr (rc, out, err)
            | LaunchFails msg \<Rightarrow> Inr (1, [], msg)
            | Interrupted \<Rightarrow> Inl KeyboardInterrupt)"
  using assms
  by (cases r)
    (auto simp: run_command_def seq_def whenE_def emit_def ret_def raise_def subprocess_run_def)


lemma fst_seq: "fst (seq m f s) = (case fst (m s) of Inl e \<Rightarrow> Inl e | Inr x \<Rightarrow> fst (f x (snd (m s))))"
  by (simp add: seq_def split: prod.splits sum.splits)

lemma suppressed_nonempty: "suppressed cmd \<Longrightarrow> cmd \<noteq> []"
  by (auto simp: suppressed_def)

section \<open>The port-forward of the health check\<close>

lemma new_events_Popen:
  "new_events (subprocess_Popen env cmd) s =
     (case fst (subprocess_Popen env cmd s) of Inl e \<Rightarrow> [] | Inr h \<Rightarrow> [Spawn h cmd])"
  by (simp add: new_events_def subprocess_Popen_def split: prod.splits popen_outcome.splits)

lemma bracket_events:
  assumes "grows body"
  shows "new_events (seq (subprocess_Popen env cmd)
            (\<lambda>h. try_finally body (seq (emit (Terminate h)) (\<lambda>_. emit (Wait h))))) s =
         (case fst (subprocess_Popen env cmd s) of
            Inl e \<Rightarrow> []
          | Inr h \<Rightarrow> Spawn h cmd # new_events body (snd (subprocess_Popen env cmd s)) @
                     [Terminate h, Wait h])"
  using assms
  by (simp add: new_events_seq new_events_try_finally grows_rules new_events_Popen
        split: sum.splits)

lemma quiet_run_command_t:
  "list_all (\<lambda>e. \<not> is_process_event e) (new_events (run_command_t env cmd check) s)"
  by (rule emits_good, rule emits_run_command_t) simp_all

lemma quiet_health_checks:
  "list_all (\<lambda>e. \<not> is_process_event e) (new_events (health_checks env) s)"
  by (rule emits_good, rule emits_health_checks) simp_all

lemma interrupted_health_check:
  "fst (test_application_health interrupted_env (new_helm_test ''quakewatch-test'' ''default'')
          (initial ())) = Inl KeyboardInterrupt \<and>
   new_events (test_application_health interrupted_env (new_helm_test ''quakewatch-test'' ''default''))
     (initial ()) =
     [Line ''Testing application health...'',
      Exec [''kubectl'', ''get'', ''pods'', ''-l'', ''app.kubernetes.io/instance=quackwatch-helm'',
            ''-n'', ''default'', ''-o'', ''jsonpath={.items[0].metadata.name}''],
      Spawn 4242 [''kubectl'', ''port-forward'', ''quackwatch-helm-7d9f'', ''8080:5000'', ''-n'',
                  ''default''],
      Sleep 3,
      HttpGet ''http://localhost:8080/ping'', Line ''Health endpoint /ping responding'',
      HttpGet ''http://localhost:8080/health'',
      Terminate 4242, Wait 4242]"
  by (simp add: new_events_def test_application_health_def seq_def emit_def run_command_t_def
        subprocess_run_def ret_def raise_def interrupted_env_def initial_def new_helm_test_def
        first_pod_query_def strip_def is_space_def subprocess_Popen_def try_finally_def
        health_checks_def probe_def requests_get_def Let_def pod_label_def)

text \<open>
  Claim C2. In every execution of the health-check step, either no background process is
  spawned at all (the pod query failed, no pod was found, or the port-forward could not be
  launched), or exactly one is spawned and the last two things the step does are to
  terminate that process and to wait for it, whatever happened in between: all probes
  answered, a probe failed, or an exception (an interrupt included) cut the probes short.
\<close>

theorem port_forward_always_terminated:
  "list_all (\<lambda>e. \<not> is_process_event e) (new_events (test_application_health env self) s) \<or>
   (\<exists>before h pod_name during.
      new_events (test_application_health env self) s =
        before @ [Spawn h (port_forward_cmd self pod_name)] @ during @ [Terminate h, Wait h] \<and>
      list_all (\<lambda>e. \<not> is_process_event e) before \<and>
      list_all (\<lambda>e. \<not> is_process_event e) during)"
proof -
  let ?s1 = "s\<lparr>trace := trace s @ [Line ''Testing application health...'']\<rparr>"
  let ?q = "run_command_t env (first_pod_query self) True"
  let ?pre = "Line ''Testing application health...'' # new_events ?q ?s1"
  have pre: "list_all (\<lambda>e. \<not> is_process_event e) ?pre"
    using quiet_run_command_t[of env "first_pod_query self" True ?s1] by simp
  show ?thesis
  proof (cases "fst (?q ?s1)")
    case (Inl e)
    then have "new_events (test_application_health env self) s = ?pre"
      by (simp add: test_application_health_def new_events_seq grows_rules Let_def case_prod_beta)
    then show ?thesis using pre by simp
  next
    case (Inr x)
    let ?pod = "strip (fst (snd x))"
    let ?s2 = "snd (?q ?s1)"
    show ?thesis
    proof (cases "?pod = []")
      case True
      then have "new_events (test_application_health env self) s = ?pre"
        using Inr
        by (simp add: test_application_health_def new_events_seq grows_rules Let_def case_prod_beta)
      then show ?thesis using pre by simp
    next
      case False
      let ?p = "subprocess_Popen env (port_forward_cmd self ?pod)"
      have eq: "new_events (test_application_health env self) s =
          ?pre @ (case fst (?p ?s2) of
                    Inl e \<Rightarrow> []
                  | Inr h \<Rightarrow> Spawn h (port_forward_cmd self ?pod) #
                       new_events (health_checks env) (snd (?p ?s2)) @ [Terminate h, Wait h])"
        using Inr False bracket_events[of "health_checks env" env "port_forward_cmd self ?pod" ?s2]
        by (simp add: test_application_health_def new_events_seq grows_rules Let_def
              case_prod_beta port_forward_cmd_def)
      show ?thesis
      proof (cases "fst (?p ?s2)")
        case (Inl e)
        then show ?thesis using eq pre by simp
      next
        case (Inr h)
        have "new_events (test_application_health env self) s =
                ?pre @ [Spawn h (port_forward_cmd self ?pod)] @
                new_events (health_checks env) (snd (?p ?s2)) @ [Terminate h, Wait h]"
          using eq Inr by simp
        then show ?thesis using pre quiet_health_checks by blast
      qed
    qed
  qed
qed

theorem port_forward_witness:
  "fst (test_application_health interrupted_env (new_helm_test ''quakewatch-test'' ''default'')
          (initial ())) = Inl KeyboardInterrupt \<and>
   new_events (test_application_health interrupted_env (new_helm_test ''quakewatch-test'' ''default''))
     (initial ()) =
     [Line ''Testing application health...'',
      Exec [''kubectl'', ''get'', ''pods'', ''-l'', ''app.kubernetes.io/instance=quackwatch-helm'',
            ''-n'', ''default'', ''-o'', ''jsonpath={.items[0].metadata.name}''],
      Spawn 4242 [''kubectl'', ''port-forward'', ''quackwatch-helm-7d9f'', ''8080:5000'', ''-n'',
                  ''default''],
      Sleep 3,
      HttpGet ''http://localhost:8080/ping'', Line ''Health endpoint /ping responding'',
      HttpGet ''http://localhost:8080/health'',
      Terminate 4242, Wait 4242]"
proof -
  note port_forward_always_terminated
    [of interrupted_env "new_helm_test ''quakewatch-test'' ''default''" "initial ()"]
  then show ?thesis by (elim disjE exE conjE) (rule interrupted_health_check)+
qed

section \<open>The readiness polling loop\<close>

lemma sleeps_append [simp]: "sleeps (xs @ ys) = sleeps xs @ sleeps ys"
  by (induction xs rule: sleeps.induct) simp_all


lemma run_command_t_state:
  "fst (run_command_t env cmd check s) =
     (case fst (launch env cmd (world s)) of
        Completed rc out err \<Rightarrow>
          if check \<and> rc \<noteq> 0 then Inl (CalledProcessError rc) else Inr (rc, out, err)
      | LaunchFails msg \<Rightarrow> Inl (OSError msg)
      | Interrupted \<Rightarrow> Inl KeyboardInterrupt) \<and>
   world (snd (run_command_t env cmd check s)) = snd (launch env cmd (world s)) \<and>
   deleted_resources (snd (run_command_t env cmd check s)) = deleted_resources s"
proof -
  obtain r w' where l: "launch env cmd (world s) = (r, w')" by (cases "launch env cmd (world s)")
  show ?thesis
    by (cases r)
      (simp_all add: l run_command_t_def seq_def subprocess_run_def emit_all_def raise_def ret_def)
qed

lemmas run_command_t_result = run_command_t_state [THEN conjunct1]


lemma loads_simps [simp]:
  "snd (loads env text s) = s"
  "fst (loads env text s) = (case json_loads env text of None \<Rightarrow> Inl JSONDecodeError | Some j \<Rightarrow> Inr j)"
  by (simp_all add: loads_def raise_def ret_def split: option.splits)

lemma new_events_loads [simp]: "new_events (loads env text) s = []"
  by (simp add: new_events_def)

lemma snd_seq: "snd (seq m f s) = (case fst (m s) of Inl e \<Rightarrow> snd (m s) | Inr x \<Rightarrow> snd (f x (snd (m s))))"
  by (simp add: seq_def split: prod.splits sum.splits)












lemma jget_error: "jget j k = Inl e \<Longrightarrow> e = KeyError \<or> e = TypeError"
  by (cases j) (auto split: option.splits)

lemma jget2_error: "jget2 j k1 k2 = Inl e \<Longrightarrow> e = KeyError \<or> e = TypeError"
  by (auto simp: jget2_def split: sum.splits dest: jget_error)

lemma all_running_error: "all_running pods = Inl e \<Longrightarrow> e = KeyError \<or> e = TypeError"
  by (induction pods) (auto split: sum.splits if_splits dest: jget2_error)

lemma items_all_running_error:
  "items_all_running items = Inl e \<Longrightarrow> e = KeyError \<or> e = TypeError"
  by (cases items) (auto dest: all_running_error)


























section \<open>Launch failures in the two command runners\<close>

text \<open>
  Claim C5, amended. When a command cannot be launched (missing binary, OS-level error),
  the command runner of cleanup.py, if it launches the command at all (it does not in a
  dry run for a suppressed or an empty command), catches the failure and returns status 1
  with empty output and the error's text as the error payload. The command runner of the
  test script does not catch it: the failure is raised to the caller, with or without
  \<open>check\<close>.
\<close>

theorem launch_failure_caught_by_cleanup_runner_only:
  assumes "launch env cmd (world s) = (LaunchFails msg, w')"
  shows "(\<not> (dry_run a \<and> (cmd = [] \<or> suppressed cmd)) \<longrightarrow>
            fst (run_command env a cmd s) = Inr (1, [], msg)) \<and>
         fst (run_command_t env cmd check s) = Inl (OSError msg)"
  using assms run_command_result[OF assms, of a]
  by (auto simp: run_command_t_def seq_def subprocess_run_def raise_def)

theorem launch_failure_witness:
  "fst (run_command (static_env (\<lambda>cmd. LaunchFails ''No such file or directory'')) real_args
          [''kubectl'', ''version'', ''--client''] (initial ())) =
     Inr (1, [], ''No such file or directory'') \<and>
   fst (run_command_t (static_env (\<lambda>cmd. LaunchFails ''No such file or directory''))
          [''kubectl'', ''version'', ''--client''] True (initial ())) =
     Inl (OSError ''No such file or directory'')"
  using launch_failure_caught_by_cleanup_runner_only
    [of "static_env (\<lambda>cmd. LaunchFails ''No such file or directory'')"
        "[''kubectl'', ''version'', ''--client'']" "initial ()" "''No such file or directory''" "()"
        real_args True]
  by (simp add: static_env_def initial_def real_args_def)

text \<open>
  The claim as stated fails for the runner of the test script: with the binary missing,
  the cleanup step's \<open>helm uninstall\<close> raises instead of returning a status.
\<close>

theorem test_runner_raises_on_launch_failure:
  "fst (run_command_t (static_env (\<lambda>cmd. LaunchFails ''No such file or directory''))
          [''helm'', ''uninstall'', ''quakewatch-test'', ''-n'', ''default''] False (initial ())) =
     Inl (OSError ''No such file or directory'')"
  by (simp add: run_command_t_def seq_def subprocess_run_def raise_def static_env_def initial_def)

section \<open>Exit codes of the two scripts\<close>

lemma raises_onlyD: "raises_only allowed m \<Longrightarrow> fst (m s) = Inl e \<Longrightarrow> allowed e"
  by (simp add: raises_only_def)

lemma raises_only_basic [simp]:
  "raises_only allowed (ret x)" "raises_only allowed (emit ev)" "raises_only allowed (emit_all es)"
  "raises_only allowed (log_deleted r)" "raises_only allowed (os_path_exists env p)"
  "raises_only allowed deleted_count" "raises_only allowed deleted_list"
  by (simp_all add: raises_only_def log_deleted_def os_path_exists_def deleted_count_def
        deleted_list_def)

lemma raises_only_raise: "allowed e \<Longrightarrow> raises_only allowed (raise e)"
  by (simp add: raises_only_def)

lemma raises_only_seq:
  "raises_only allowed m \<Longrightarrow> (\<And>x. raises_only allowed (f x)) \<Longrightarrow> raises_only allowed (seq m f)"
  by (auto simp: raises_only_def fst_seq split: sum.splits)

lemma raises_only_if:
  "(b \<Longrightarrow> raises_only allowed m) \<Longrightarrow> (\<not> b \<Longrightarrow> raises_only allowed n) \<Longrightarrow>
   raises_only allowed (if b then m else n)"
  by simp

lemma raises_only_whenE: "(b \<Longrightarrow> raises_only allowed m) \<Longrightarrow> raises_only allowed (whenE b m)"
  by (simp add: whenE_def)

lemma raises_only_case_prod:
  "(\<And>a b. raises_only allowed (f a b)) \<Longrightarrow> raises_only allowed (case p of (a, b) \<Rightarrow> f a b)"
  by (cases p) simp

lemma raises_only_case_prod_app:
  "(\<And>a b. raises_only allowed (f a b x)) \<Longrightarrow>
   raises_only allowed ((case p of (a, b) \<Rightarrow> f a b) x)"
  by (cases p) simp

lemma raises_only_let: "raises_only allowed (f v) \<Longrightarrow> raises_only allowed (Let v f)"
  by simp

lemma raises_only_for_each:
  "(\<And>x acc. raises_only allowed (body x acc)) \<Longrightarrow> raises_only allowed (for_each xs body acc)"
  by (induction xs arbitrary: acc) (auto intro: raises_only_seq)

lemma raises_only_run_command:
  assumes "allowed KeyboardInterrupt" and "cmd \<noteq> []"
  shows "raises_only allowed (run_command env a cmd)"
  using assms
  by (auto simp: raises_only_def run_command_def seq_def whenE_def emit_def ret_def raise_def
        subprocess_run_def split: prod.splits sum.splits outcome.splits if_splits)

lemma raises_only_input:
  assumes "allowed KeyboardInterrupt" and "allowed EOFError"
  shows "raises_only allowed (input env p)"
  using assms
  by (auto simp: raises_only_def input_def Let_def split: prod.splits input_outcome.splits)

lemmas raises_only_rules =
  raises_only_seq raises_only_if raises_only_whenE raises_only_case_prod
  raises_only_case_prod_app raises_only_let raises_only_for_each raises_only_basic
  raises_only_raise raises_only_run_command raises_only_input

lemma raises_confirm_action: "raises_only interruption (confirm_action env a m d)"
  unfolding confirm_action_def by (intro raises_only_rules; simp)

lemma raises_namespace_exists: "raises_only interruption (namespace_exists env a n)"
  unfolding namespace_exists_def by (intro raises_only_rules; simp)

lemma raises_resource_exists: "raises_only interruption (resource_exists env a k n ns)"
  unfolding resource_exists_def by (intro raises_only_rules; simp)

lemma raises_helm_release_exists: "raises_only interruption (helm_release_exists env a r n)"
  unfolding helm_release_exists_def by (intro raises_only_rules; simp)

lemma raises_delete_resource: "raises_only interruption (delete_resource env a k n ns w)"
  unfolding delete_resource_def by (intro raises_only_rules; simp)

lemma raises_delete_namespace_wait: "raises_only interruption (delete_namespace_wait env a n t)"
  unfolding delete_namespace_wait_def
  by (intro raises_only_rules raises_namespace_exists; simp)

lemma split_words_version:
  "split_words ''kubectl version --client'' = [''kubectl'', ''version'', ''--client'']"
  "split_words ''helm version'' = [''helm'', ''version'']"
  by (simp_all add: split_words_def is_space_def)

lemma raises_check_prerequisites: "raises_only interruption (check_prerequisites env a)"
  unfolding check_prerequisites_def for_each.simps prod.case split_words_version
  by (intro raises_only_rules; simp)

lemma raises_list_resources_to_delete: "raises_only interruption (list_resources_to_delete env a)"
  unfolding list_resources_to_delete_def
  by (intro raises_only_rules raises_namespace_exists raises_resource_exists
        raises_helm_release_exists; simp)

lemma raises_kill_port_forwards: "raises_only interruption (kill_port_forwards env a)"
  unfolding kill_port_forwards_def by (intro raises_only_rules; simp)

lemma raises_delete_argocd_application: "raises_only interruption (delete_argocd_application env a)"
  unfolding delete_argocd_application_def
  by (intro raises_only_rules raises_resource_exists raises_delete_resource; simp)

lemma raises_delete_application_resources:
  "raises_only interruption (delete_application_resources env a)"
  unfolding delete_application_resources_def
  by (intro raises_only_rules raises_delete_resource; simp)

lemma raises_delete_monitoring_resources:
  "raises_only interruption (delete_monitoring_resources env a)"
  unfolding delete_monitoring_resources_def
  by (intro raises_only_rules raises_delete_resource; simp)

lemma raises_delete_monitoring_stack: "raises_only interruption (delete_monitoring_stack env a)"
  unfolding delete_monitoring_stack_def
  by (intro raises_only_rules raises_helm_release_exists raises_namespace_exists; simp)

lemma raises_delete_namespaces: "raises_only interruption (delete_namespaces env a)"
  unfolding delete_namespaces_def
  by (intro raises_only_rules raises_namespace_exists raises_delete_namespace_wait; simp)

lemma raises_cleanup_phases: "raises_only interruption (cleanup_phases env a)"
  unfolding cleanup_phases_def
  by (intro raises_only_rules raises_kill_port_forwards raises_delete_argocd_application
        raises_delete_application_resources raises_delete_monitoring_resources
        raises_delete_monitoring_stack raises_delete_namespaces)

lemma raises_print_summary: "raises_only interruption (print_summary a)"
  unfolding print_summary_def by (intro raises_only_rules)

lemma raises_confirm_cleanup: "raises_only interruption (confirm_cleanup env a)"
  unfolding confirm_cleanup_def by (intro raises_only_rules raises_confirm_action)

lemma raises_banner: "raises_only (\<lambda>e. False) (banner a)"
  unfolding banner_def by (intro raises_only_rules)

lemma raises_only_weaken:
  "raises_only allowed m \<Longrightarrow> (\<And>e. allowed e \<Longrightarrow> allowed' e) \<Longrightarrow> raises_only allowed' m"
  by (auto simp: raises_only_def)

lemma banner_returns [simp]: "fst (banner a s) = Inr ()"
proof (cases "fst (banner a s)")
  case (Inl e)
  then show ?thesis using raises_onlyD[OF raises_banner] by blast
next
  case (Inr u)
  then show ?thesis by simp
qed

lemma run_result:
  "fst (run env a s) =
     (case fst (run_body env a s) of
        Inr u \<Rightarrow> Inr u
      | Inl e \<Rightarrow> if e = KeyboardInterrupt \<or> is_Exception e then Inl (SystemExit 1) else Inl e)"
proof -
  obtain r s1 where b: "run_body env a s = (r, s1)" by (cases "run_body env a s")
  show ?thesis
    by (cases r) (auto simp: b run_def seq_def emit_def raise_def whenE_def ret_def)
qed

lemma after_prerequisites_raises:
  "raises_only interruption
     (seq (list_resources_to_delete env a) (\<lambda>resources.
        if all_empty resources then emit (Success ''Nothing to clean up!'')
        else seq (confirm_cleanup env a) (\<lambda>proceed.
               if proceed then seq (cleanup_phases env a) (\<lambda>_. print_summary a)
               else ret ())))"
  by (intro raises_only_rules raises_list_resources_to_delete raises_confirm_cleanup
        raises_cleanup_phases raises_print_summary)

lemma run_body_result:
  "fst (run_body env a (initial w)) =
     (case fst (check_prerequisites env a (started a w)) of
        Inl e \<Rightarrow> Inl e
      | Inr ok \<Rightarrow>
          if \<not> ok then Inl (SystemExit 1)
          else fst (seq (list_resources_to_delete env a) (\<lambda>resources.
                  if all_empty resources then emit (Success ''Nothing to clean up!'')
                  else seq (confirm_cleanup env a) (\<lambda>proceed.
                         if proceed then seq (cleanup_phases env a) (\<lambda>_. print_summary a)
                         else ret ()))
                 (snd (check_prerequisites env a (started a w)))))"
  by (simp add: run_body_def fst_seq[of "banner a"] fst_seq[of "check_prerequisites env a"]
        fst_seq[of "emit e" for e] started_def split: sum.splits)

lemma run_body_exit:
  "fst (run_body env a (initial w)) = Inl (SystemExit n) \<longleftrightarrow>
     n = 1 \<and> fst (check_prerequisites env a (started a w)) = Inr False"
proof (cases "fst (check_prerequisites env a (started a w))")
  case (Inl e)
  then have "interruption e" using raises_onlyD[OF raises_check_prerequisites] by blast
  then have "e \<noteq> SystemExit n" by auto
  then show ?thesis using Inl by (simp add: run_body_result)
next
  case (Inr ok)
  show ?thesis
  proof (cases ok)
    case False
    then show ?thesis using Inr by (auto simp: run_body_result)
  next
    case True
    have "\<And>e. fst (run_body env a (initial w)) = Inl e \<Longrightarrow> interruption e"
      using Inr True raises_onlyD[OF after_prerequisites_raises]
      by (simp add: run_body_result)
    then have "fst (run_body env a (initial w)) \<noteq> Inl (SystemExit n)" by fastforce
    then show ?thesis using Inr True by simp
  qed
qed

lemma run_body_raises:
  assumes "fst (run_body env a (initial w)) = Inl e"
  shows "e = KeyboardInterrupt \<or> e = EOFError \<or> e = SystemExit 1"
proof (cases "fst (check_prerequisites env a (started a w))")
  case (Inl e')
  then have "interruption e'" using raises_onlyD[OF raises_check_prerequisites] by blast
  moreover have "e = e'" using assms Inl by (simp add: run_body_result)
  ultimately show ?thesis by (cases e) auto
next
  case (Inr ok)
  show ?thesis
  proof (cases ok)
    case False
    then show ?thesis using Inr assms by (simp add: run_body_result)
  next
    case True
    then have "interruption e"
      using Inr assms raises_onlyD[OF after_prerequisites_raises] by (simp add: run_body_result)
    then show ?thesis by (cases e) auto
  qed
qed

lemma cleanup_exit:
  "fst (cleanup_main env a w) =
     (case fst (run_body env a (initial w)) of Inr u \<Rightarrow> 0 | Inl e \<Rightarrow> 1)"
proof (cases "fst (run_body env a (initial w))")
  case (Inl e)
  then show ?thesis
    using run_body_raises[OF Inl] run_result[of env a "initial w"]
    by (auto simp: cleanup_main_def split: prod.splits)
next
  case (Inr u)
  then show ?thesis
    using run_result[of env a "initial w"] by (auto simp: cleanup_main_def split: prod.splits)
qed

lemma interrupt_handler:
  assumes "fst (run_body env a s) = Inl KeyboardInterrupt"
  shows "new_events (run env a) s =
           new_events (run_body env a) s @ [Line [], Warning ''Cleanup interrupted by user'']"
proof -
  obtain r s1 where b: "run_body env a s = (r, s1)" by (cases "run_body env a s")
  have t1: "trace s1 = trace s @ new_events (run_body env a) s"
    using grows_trace[OF grows_run_body, of env a s] b by simp
  have "trace (snd (run env a s)) = trace s1 @ [Line [], Warning ''Cleanup interrupted by user'']"
    using assms b by (simp add: run_def seq_def emit_def raise_def)
  then have "new_events (run env a) s =
      drop (length (trace s))
        (trace s @ new_events (run_body env a) s @ [Line [], Warning ''Cleanup interrupted by user''])"
    by (simp add: new_events_def t1)
  then show ?thesis by simp
qed

lemma cancelled_returns:
  assumes "cancelled env a w"
  shows "fst (run_body env a (initial w)) = Inr ()"
  using assms
  by (simp add: cancelled_def Let_def run_body_result fst_seq[of "list_resources_to_delete env a"]
        fst_seq[of "confirm_cleanup env a"] split: sum.splits)

lemma raises_only_lift: "(\<And>e. r = Inl e \<Longrightarrow> allowed e) \<Longrightarrow> raises_only allowed (lift r)"
  by (simp add: raises_only_def)

lemma raises_only_loads: "allowed JSONDecodeError \<Longrightarrow> raises_only allowed (loads env text)"
  by (auto simp: raises_only_def split: option.splits)

lemma raises_only_assert: "(\<And>m. allowed (AssertionError m)) \<Longrightarrow> raises_only allowed (assert b m)"
  by (simp add: raises_only_def assert_def raise_def ret_def)

lemma raises_only_run_command_t:
  assumes "allowed KeyboardInterrupt" and "\<And>m. allowed (OSError m)"
    and "\<And>rc. check \<Longrightarrow> allowed (CalledProcessError rc)"
  shows "raises_only allowed (run_command_t env cmd check)"
  using assms
  by (auto simp: raises_only_def run_command_t_result split: outcome.splits if_splits)

lemma raises_only_try_finally:
  assumes "raises_only allowed m" and "raises_only allowed h"
  shows "raises_only allowed (try_finally m h)"
  using assms
  by (auto simp: raises_only_def try_finally_def split: prod.splits sum.splits)
    (metis fst_conv)+

lemma raises_only_case_option:
  "raises_only allowed n \<Longrightarrow> (\<And>x. raises_only allowed (f x)) \<Longrightarrow>
   raises_only allowed (case r of None \<Rightarrow> n | Some x \<Rightarrow> f x)"
  by (cases r) simp_all

lemma not_exit_simps [simp]:
  "not_exit KeyboardInterrupt" "not_exit (OSError m)" "not_exit (CalledProcessError rc)"
  "not_exit JSONDecodeError" "not_exit KeyError" "not_exit TypeError" "not_exit (AssertionError m)"
  "\<not> not_exit (SystemExit n)"
  by (simp_all add: not_exit_def)

lemma not_exit_json:
  "jget j k = Inl e \<Longrightarrow> not_exit e" "jget2 j k k' = Inl e \<Longrightarrow> not_exit e"
  "items_all_running j = Inl e \<Longrightarrow> not_exit e" "json_len j = Inl e \<Longrightarrow> not_exit e"
  "py_gt0 j = Inl e \<Longrightarrow> not_exit e"
  using jget_error[of j k e] jget2_error[of j k k' e] items_all_running_error[of j e]
  by (auto simp: py_gt0_def split: option.splits) (cases j; simp)

lemmas raises_test_rules =
  raises_only_rules raises_only_lift raises_only_loads raises_only_assert
  raises_only_run_command_t raises_only_try_finally raises_only_case_option

lemma raises_test_helm_install: "raises_only not_exit (test_helm_install env self)"
  unfolding test_helm_install_def by (intro raises_test_rules; simp)

lemma raises_test_deployment_status: "raises_only not_exit (test_deployment_status env self)"
  unfolding test_deployment_status_def by (intro raises_test_rules; simp add: not_exit_json)

lemma raises_poll_pods: "raises_only not_exit (poll_pods env self attempt)"
  unfolding poll_pods_def by (intro raises_test_rules; simp add: not_exit_json)

lemma raises_pods_loop: "raises_only not_exit (pods_loop env self attempts)"
  by (induction attempts) (auto intro!: raises_test_rules raises_poll_pods)

lemma raises_test_pods_running: "raises_only not_exit (test_pods_running env self)"
  unfolding test_pods_running_def by (intro raises_test_rules raises_pods_loop)

lemma raises_test_service_exists: "raises_only not_exit (test_service_exists env self)"
  unfolding test_service_exists_def by (intro raises_test_rules; simp add: not_exit_json)

lemma raises_test_configmap_mount: "raises_only not_exit (test_configmap_mount env self)"
  unfolding test_configmap_mount_def by (intro raises_test_rules; simp)

lemma raises_probe: "raises_only not_exit (probe env path ok other failed)"
  by (auto simp: raises_only_def probe_def fst_seq requests_get_def emit_def raise_def
        split: prod.splits http_outcome.splits sum.splits if_splits)

lemma raises_health_checks: "raises_only not_exit (health_checks env)"
  unfolding health_checks_def by (intro raises_test_rules raises_probe)

lemma raises_Popen: "raises_only not_exit (subprocess_Popen env cmd)"
  by (auto simp: raises_only_def subprocess_Popen_def split: prod.splits popen_outcome.splits)

lemma raises_test_application_health: "raises_only not_exit (test_application_health env self)"
  unfolding test_application_health_def
  by (intro raises_test_rules raises_Popen raises_health_checks; simp)

lemma raises_test_hpa_exists: "raises_only not_exit (test_hpa_exists env self)"
  unfolding test_hpa_exists_def by (intro raises_test_rules; simp add: not_exit_json)

lemma raises_suite: "raises_only not_exit (suite env self)"
  unfolding suite_def
  by (intro raises_test_rules raises_test_helm_install raises_test_deployment_status
        raises_test_pods_running raises_test_service_exists raises_test_configmap_mount
        raises_test_application_health raises_test_hpa_exists)

lemma raises_cleanup:
  "raises_only (\<lambda>e. e = KeyboardInterrupt \<or> (\<exists>m. e = OSError m)) (cleanup env self)"
  unfolding cleanup_def by (intro raises_test_rules; simp)

lemma fst_try_finally:
  "fst (try_finally m h s) =
     (case fst (h (snd (m s))) of Inl e \<Rightarrow> Inl e | Inr u \<Rightarrow> fst (m s))"
  by (simp add: try_finally_def split: prod.splits sum.splits)

lemma fst_catch_failure:
  "fst (catch_failure m s) =
     (case fst (m s) of
        Inr b \<Rightarrow> Inr b
      | Inl e \<Rightarrow> if is_Exception e then Inr False else Inl e)"
  by (simp add: catch_failure_def seq_def emit_def ret_def split: prod.splits sum.splits)

lemma run_all_tests_result:
  "fst (run_all_tests env self cleanup_var (initial w)) =
     (case final_cleanup env self cleanup_var w of
        Inl e \<Rightarrow> Inl e
      | Inr u \<Rightarrow> fst (catch_failure (suite env self) (suite_start w)))"
proof -
  have s: "snd (seq (emit (Line ''Starting Helm Deployment Test Suite''))
                  (\<lambda>_. emit (Line rule_line)) (initial w)) = suite_start w"
    by (simp add: seq_def emit_def initial_def suite_start_def)
  have "run_all_tests env self cleanup_var (initial w) =
          try_finally (catch_failure (suite env self))
            (whenE (cleanup_wanted cleanup_var) (cleanup env self)) (suite_start w)"
    by (simp add: run_all_tests_def seq_def emit_def initial_def suite_start_def)
  then show ?thesis
    by (simp add: fst_try_finally final_cleanup_def after_suite_def)
qed

lemma answer_n: "strip [] = []" "lower (strip ''n'') = ''n''"
  by code_simp+

lemma prompt_cancel: "cancelled (prompt_env (InputLine ''n'')) asking_args ()"
  by (simp add: answer_n add_items_def empty_inventory_def all_empty_def cancelled_def started_def banner_def check_prerequisites_def
        list_resources_to_delete_def confirm_cleanup_def confirm_action_def
        prompt_env_def asking_args_def initial_def seq_def emit_def emit_all_def ret_def raise_def
        whenE_def run_command_def subprocess_run_def suppressed_def input_def
        resource_exists_def namespace_exists_def helm_release_exists_def
        split_words_version Let_def)

lemma helm_test_exit:
  "fst (helm_test_main env release ns no_cleanup getenv_cleanup w) =
     (case fst (run_all_tests env (new_helm_test release ns)
                  (if no_cleanup then Some ''false'' else getenv_cleanup) (initial w)) of
        Inr success \<Rightarrow> if success then 0 else 1
      | Inl e \<Rightarrow> exit_status (Inl e :: exn + unit))"
  by (simp add: helm_test_main_def Let_def split: prod.splits sum.splits)

lemma final_cleanup_raises:
  "final_cleanup env self var w = Inl e \<Longrightarrow> e = KeyboardInterrupt \<or> (\<exists>m. e = OSError m)"
  using raises_onlyD[OF raises_cleanup, of env self "after_suite env self w" e]
  by (simp add: final_cleanup_def whenE_def split: if_splits)

lemma exit_status_raised:
  "not_exit e \<Longrightarrow> exit_status (Inl e :: exn + unit) = (if e = KeyboardInterrupt then 130 else 1)"
  by (cases e) (simp_all add: not_exit_def)

lemma cleanup_result:
  "fst (cleanup env self s) =
     (case fst (launch env [''helm'', ''uninstall'', release_name self, ''-n'', namespace self]
                  (world s)) of
        Completed rc out err \<Rightarrow> Inr ()
      | LaunchFails msg \<Rightarrow> Inl (OSError msg)
      | Interrupted \<Rightarrow> Inl KeyboardInterrupt)"
  by (simp add: cleanup_def fst_seq run_command_t_result emit_simps
        split: outcome.splits sum.splits prod.splits)

lemma first_attempt: "[0 ..< max_attempts] = 0 # [1 ..< max_attempts]"
  by (simp add: max_attempts_def upt_rec)

lemma pod_name_stripped: "strip ''quackwatch-helm-7d9f'' = ''quackwatch-helm-7d9f''"
  by code_simp

lemmas suite_steps =
  suite_def test_helm_install_def test_deployment_status_def test_pods_running_def
  first_attempt poll_pods_def test_service_exists_def test_configmap_mount_def
  first_pod_query_def test_application_health_def health_checks_def probe_def
  requests_get_def subprocess_Popen_def try_finally_def test_hpa_exists_def
  run_command_t_def subprocess_run_def seq_def emit_def ret_def raise_def lift_def assert_def
  loads_def for_each.simps
  jget2_def py_gt0_def py_eq_def cluster_env_def cluster_doc_def pod_in_def
  suite_start_def new_helm_test_def pod_name_stripped Let_def

lemma cluster_suite_passes:
  "fst (suite (cluster_env 1 u) (new_helm_test ''quakewatch-test'' ''default'') (suite_start ()))
     = Inr True"
  by (simp add: suite_steps)

lemma cluster_suite_fails:
  "fst (suite (cluster_env 0 u) (new_helm_test ''quakewatch-test'' ''default'') (suite_start ()))
     = Inl (AssertionError ''No replicas found'')"
  by (simp add: suite_steps)

lemma cluster_cleanup:
  "final_cleanup (cluster_env n u) (new_helm_test ''quakewatch-test'' ''default'') None () =
     (case u of Completed rc out err \<Rightarrow> Inr ()
      | LaunchFails msg \<Rightarrow> Inl (OSError msg)
      | Interrupted \<Rightarrow> Inl KeyboardInterrupt)"
  by (simp add: final_cleanup_def cleanup_wanted_def lower_true whenE_def cleanup_result
        cluster_env_def new_helm_test_def)

lemma prompt_interrupt:
  "fst (run_body (prompt_env InputInterrupted) asking_args (initial ())) = Inl KeyboardInterrupt"
  "fst (check_prerequisites (prompt_env InputInterrupted) asking_args (started asking_args ()))
     = Inr True"
  by (simp_all add: answer_n add_items_def empty_inventory_def all_empty_def
        run_body_def started_def banner_def check_prerequisites_def
        list_resources_to_delete_def confirm_cleanup_def confirm_action_def
        prompt_env_def asking_args_def initial_def seq_def emit_def emit_all_def ret_def raise_def
        whenE_def run_command_def subprocess_run_def suppressed_def input_def
        resource_exists_def namespace_exists_def helm_release_exists_def
        split_words_version Let_def)

lemma teardown_exit_1:
  "fst (cleanup_main env a w) = 1 \<longleftrightarrow>
     prerequisites_failed env a w \<or> unexpected_error env a w \<or> interrupted env a w"
proof (cases "fst (run_body env a (initial w))")
  case (Inr u)
  then have "\<not> prerequisites_failed env a w"
    using run_body_exit[of env a w 1] by (simp add: prerequisites_failed_def)
  then show ?thesis using Inr by (simp add: cleanup_exit unexpected_error_def interrupted_def)
next
  case (Inl e)
  have "prerequisites_failed env a w \<longleftrightarrow> e = SystemExit 1"
    using run_body_exit[of env a w 1] Inl by (simp add: prerequisites_failed_def)
  then show ?thesis
    using Inl run_body_raises[OF Inl]
    by (auto simp: cleanup_exit unexpected_error_def interrupted_def)
qed

lemma teardown_exit_0_or_1: "fst (cleanup_main env a w) = 0 \<or> fst (cleanup_main env a w) = 1"
  by (simp add: cleanup_exit split: sum.splits)

lemma verification_exit_0:
  "fst (helm_test_main env release ns no_cleanup getenv_cleanup w) = 0 \<longleftrightarrow>
     fst (suite env (new_helm_test release ns) (suite_start w)) = Inr True \<and>
     final_cleanup env (new_helm_test release ns)
       (if no_cleanup then Some ''false'' else getenv_cleanup) w = Inr ()"
proof -
  let ?self = "new_helm_test release ns"
  let ?var = "if no_cleanup then Some ''false'' else getenv_cleanup"
  show ?thesis
  proof (cases "final_cleanup env ?self ?var w")
    case (Inl e)
    then have "not_exit e" using final_cleanup_raises[OF Inl] by auto
    then show ?thesis
      using Inl by (simp add: helm_test_exit run_all_tests_result exit_status_raised)
  next
    case (Inr u)
    show ?thesis
    proof (cases "fst (suite env ?self (suite_start w))")
      case (Inl e)
      then have "not_exit e" using raises_onlyD[OF raises_suite] by blast
      then show ?thesis
        using Inl Inr
        by (simp add: helm_test_exit run_all_tests_result fst_catch_failure exit_status_raised)
    next
      case ok: (Inr b)
      then show ?thesis
        using Inr by (simp add: helm_test_exit run_all_tests_result fst_catch_failure)
    qed
  qed
qed

lemma verification_exit_1:
  assumes "fst (suite env (new_helm_test release ns) (suite_start w)) = Inl (AssertionError m)"
    and "final_cleanup env (new_helm_test release ns)
           (if no_cleanup then Some ''false'' else getenv_cleanup) w \<noteq> Inl KeyboardInterrupt"
  shows "fst (helm_test_main env release ns no_cleanup getenv_cleanup w) = 1"
proof (cases "final_cleanup env (new_helm_test release ns)
                (if no_cleanup then Some ''false'' else getenv_cleanup) w")
  case (Inl e)
  then obtain msg where "e = OSError msg" using final_cleanup_raises[OF Inl] assms(2) by auto
  then show ?thesis using Inl by (simp add: helm_test_exit run_all_tests_result)
next
  case (Inr u)
  then show ?thesis
    using assms(1) by (simp add: helm_test_exit run_all_tests_result fst_catch_failure)
qed

text \<open>
  Claim C7, as the specification words it, fails at three places. An interrupt at the
  confirmation prompt makes the teardown script exit with code 1, although the
  prerequisite check passed and no error was raised. The verification script exits with
  code 1 after a test suite that fully succeeded when the final \<open>helm uninstall\<close>
  cannot be launched, and with code 130 after an assertion failure when that command is
  interrupted.
\<close>

theorem interrupt_exits_1_and_final_cleanup_decides:
  "fst (cleanup_main (prompt_env InputInterrupted) asking_args ()) = 1 \<and>
   \<not> prerequisites_failed (prompt_env InputInterrupted) asking_args () \<and>
   \<not> unexpected_error (prompt_env InputInterrupted) asking_args () \<and>
   fst (suite (cluster_env 1 (LaunchFails ''No such file or directory''))
          (new_helm_test ''quakewatch-test'' ''default'') (suite_start ())) = Inr True \<and>
   fst (helm_test_main (cluster_env 1 (LaunchFails ''No such file or directory''))
          ''quakewatch-test'' ''default'' False None ()) = 1 \<and>
   fst (suite (cluster_env 0 Interrupted)
          (new_helm_test ''quakewatch-test'' ''default'') (suite_start ())) =
     Inl (AssertionError ''No replicas found'') \<and>
   fst (helm_test_main (cluster_env 0 Interrupted)
          ''quakewatch-test'' ''default'' False None ()) = 130"
  by (simp add: cleanup_exit prompt_interrupt prerequisites_failed_def unexpected_error_def
        cluster_suite_passes cluster_suite_fails helm_test_exit run_all_tests_result
        cluster_cleanup)

text \<open>
  Claim C7, amended. The teardown script exits with code 1 exactly on a failure of the
  prerequisite check, an unhandled error or an operator interrupt, and with code 0
  otherwise, including when the user cancels at the confirmation prompt. An operator
  interrupt produces a blank line and a warning message, and the process ends through
  \<open>sys.exit(1)\<close>, not through an exception that would print a stack trace. The
  verification script exits with code 0 exactly when the test suite fully succeeds and the
  final cleanup, if it is enabled, returns; it exits with code 1 on any assertion failure,
  unless the final cleanup is interrupted.
\<close>

theorem exit_codes_of_the_two_scripts:
  "(fst (cleanup_main env a w) = 1 \<longleftrightarrow>
      prerequisites_failed env a w \<or> unexpected_error env a w \<or> interrupted env a w) \<and>
   (fst (cleanup_main env a w) = 0 \<longleftrightarrow>
      \<not> (prerequisites_failed env a w \<or> unexpected_error env a w \<or> interrupted env a w)) \<and>
   (cancelled env a w \<longrightarrow> fst (cleanup_main env a w) = 0) \<and>
   (interrupted env a w \<longrightarrow>
      fst (run env a (initial w)) = Inl (SystemExit 1) \<and>
      new_events (run env a) (initial w) =
        new_events (run_body env a) (initial w) @
        [Line [], Warning ''Cleanup interrupted by user'']) \<and>
   (fst (helm_test_main env' release ns no_cleanup getenv_cleanup v) = 0 \<longleftrightarrow>
      fst (suite env' (new_helm_test release ns) (suite_start v)) = Inr True \<and>
      final_cleanup env' (new_helm_test release ns)
        (if no_cleanup then Some ''false'' else getenv_cleanup) v = Inr ()) \<and>
   (fst (suite env' (new_helm_test release ns) (suite_start v)) = Inl (AssertionError m) \<and>
    final_cleanup env' (new_helm_test release ns)
      (if no_cleanup then Some ''false'' else getenv_cleanup) v \<noteq> Inl KeyboardInterrupt \<longrightarrow>
      fst (helm_test_main env' release ns no_cleanup getenv_cleanup v) = 1)"
proof -
  have 1: "fst (cleanup_main env a w) = 1 \<longleftrightarrow>
      prerequisites_failed env a w \<or> unexpected_error env a w \<or> interrupted env a w"
    by (rule teardown_exit_1)
  have 2: "fst (cleanup_main env a w) = 0 \<longleftrightarrow>
      \<not> (prerequisites_failed env a w \<or> unexpected_error env a w \<or> interrupted env a w)"
    using 1 teardown_exit_0_or_1[of env a w] by auto
  have 3: "fst (cleanup_main env a w) = 0" if "cancelled env a w"
    using cancelled_returns[OF that] by (simp add: cleanup_exit)
  have 4: "fst (run env a (initial w)) = Inl (SystemExit 1) \<and>
      new_events (run env a) (initial w) =
        new_events (run_body env a) (initial w) @
        [Line [], Warning ''Cleanup interrupted by user'']"
    if "interrupted env a w"
    using that interrupt_handler[of env a "initial w"] run_result[of env a "initial w"]
    by (simp add: interrupted_def)
  show ?thesis
    using 1 2 3 4 verification_exit_0[of env' release ns no_cleanup getenv_cleanup v]
      verification_exit_1[of env' release ns v m no_cleanup getenv_cleanup]
    by blast
qed

theorem exit_codes_witness:
  "fst (cleanup_main (prompt_env (InputLine ''n'')) asking_args ()) = 0 \<and>
   fst (helm_test_main (cluster_env 1 (Completed 0 [] [])) ''quakewatch-test'' ''default''
          False None ()) = 0 \<and>
   fst (helm_test_main (cluster_env 0 (Completed 0 [] [])) ''quakewatch-test'' ''default''
          False None ()) = 1"
proof -
  note pass = exit_codes_of_the_two_scripts
    [where env = "prompt_env (InputLine ''n'')" and a = asking_args and w = "()"
       and env' = "cluster_env 1 (Completed 0 [] [])" and release = "''quakewatch-test''"
       and ns = "''default''" and no_cleanup = False and getenv_cleanup = None and v = "()"
       and m = "''No replicas found''"]
  note fail = exit_codes_of_the_two_scripts
    [where env = "prompt_env (InputLine ''n'')" and a = asking_args and w = "()"
       and env' = "cluster_env 0 (Completed 0 [] [])" and release = "''quakewatch-test''"
       and ns = "''default''" and no_cleanup = False and getenv_cleanup = None and v = "()"
       and m = "''No replicas found''"]
  have c: "final_cleanup (cluster_env n (Completed 0 [] []))
             (new_helm_test ''quakewatch-test'' ''default'')
             (if False then Some ''false'' else None) () = Inr ()" for n
    by (simp add: cluster_cleanup)
  have "fst (cleanup_main (prompt_env (InputLine ''n'')) asking_args ()) = 0"
    using pass prompt_cancel by blast
  moreover have "fst (helm_test_main (cluster_env 1 (Completed 0 [] [])) ''quakewatch-test''
                        ''default'' False None ()) = 0"
    using pass cluster_suite_passes[of "Completed 0 [] []"] c[of 1] by blast
  moreover have "fst (helm_test_main (cluster_env 0 (Completed 0 [] [])) ''quakewatch-test''
                        ''default'' False None ()) = 1"
    using fail cluster_suite_fails[of "Completed 0 [] []"] c[of 0] by auto
  ultimately show ?thesis by simp
qed


section \<open>The existence probes\<close>




section \<open>The gate of the test release's teardown\<close>

text \<open>
  Claim C10. When the variable \<open>CLEANUP\<close> is unset the gate is open; the comparison
  ignores case, so \<open>TRUE\<close> and \<open>True\<close> open it too, and in general a value opens it
  exactly when its lower-case form is \<open>true\<close>. When the gate is open, \<open>run_all_tests\<close>
  runs the uninstall of the release after the suite, whatever the suite did (passed, failed
  or was interrupted): the events of the run are the two opening lines, the events of the
  suite with its failure handler, and then the cleanup, which issues \<open>helm uninstall\<close>.
  The class teardown of the pytest integration applies the same gate.
\<close>

theorem cleanup_gate_defaults_to_true_and_runs_in_finally:
  "cleanup_wanted None \<and> cleanup_wanted (Some ''TRUE'') \<and> cleanup_wanted (Some ''True'') \<and>
   cleanup_wanted (Some v) = (lower v = ''true'') \<and>
   (cleanup_wanted var \<longrightarrow>
      (\<exists>rest. new_events (run_all_tests env self var) s =
         [Line ''Starting Helm Deployment Test Suite'', Line rule_line] @
         new_events (catch_failure (suite env self))
           (s\<lparr>trace := trace s @ [Line ''Starting Helm Deployment Test Suite'', Line rule_line]\<rparr>) @
         [Line ''Cleaning up test deployment...'',
          Exec [''helm'', ''uninstall'', release_name self, ''-n'', namespace self]] @ rest)) \<and>
   (cleanup_wanted var \<longrightarrow>
      (\<exists>rest. new_events (teardown_class env var) s =
         [Line ''Cleaning up test deployment...'',
          Exec [''helm'', ''uninstall'', ''quackwatch-helm'', ''-n'', ''default'']] @ rest))"
proof -
  have gate: "cleanup_wanted None" "cleanup_wanted (Some ''TRUE'')" "cleanup_wanted (Some ''True'')"
    "cleanup_wanted (Some v) = (lower v = ''true'')"
    by (simp_all add: cleanup_wanted_def lower_TRUE lower_True lower_true)
  have fin: "\<exists>rest. new_events (run_all_tests env self var) s =
         [Line ''Starting Helm Deployment Test Suite'', Line rule_line] @
         new_events (catch_failure (suite env self))
           (s\<lparr>trace := trace s @ [Line ''Starting Helm Deployment Test Suite'', Line rule_line]\<rparr>) @
         [Line ''Cleaning up test deployment...'',
          Exec [''helm'', ''uninstall'', release_name self, ''-n'', namespace self]] @ rest"
    if w: "cleanup_wanted var"
  proof -
    let ?s2 = "s\<lparr>trace := trace s @ [Line ''Starting Helm Deployment Test Suite'', Line rule_line]\<rparr>"
    let ?s3 = "snd (catch_failure (suite env self) ?s2)"
    obtain rest where r: "new_events (cleanup env self) ?s3 =
       [Line ''Cleaning up test deployment...'',
        Exec [''helm'', ''uninstall'', release_name self, ''-n'', namespace self]] @ rest"
      using cleanup_events by blast
    have "new_events (run_all_tests env self var) s =
       [Line ''Starting Helm Deployment Test Suite'', Line rule_line] @
       new_events (catch_failure (suite env self)) ?s2 @ new_events (cleanup env self) ?s3"
      unfolding run_all_tests_def using w
      by (simp add: new_events_seq new_events_try_finally grows_rules whenE_def emit_def)
    then show ?thesis using r by simp
  qed
  have td: "\<exists>rest. new_events (teardown_class env var) s =
         [Line ''Cleaning up test deployment...'',
          Exec [''helm'', ''uninstall'', ''quackwatch-helm'', ''-n'', ''default'']] @ rest"
    if w: "cleanup_wanted var"
    using w cleanup_events[of env "new_helm_test ''quackwatch-helm'' ''default''" s]
    by (simp add: teardown_class_def whenE_def new_helm_test_def)
  show ?thesis using gate fin td by blast
qed

theorem cleanup_gate_witness:
  "cleanup_wanted None \<and>
   Exec [''helm'', ''uninstall'', ''quakewatch-test'', ''-n'', ''default'']
     \<in> set (new_events
              (run_all_tests (static_env (\<lambda>cmd. Completed 1 [] []))
                 (new_helm_test ''quakewatch-test'' ''default'') None) (initial ()))"
  using cleanup_gate_defaults_to_true_and_runs_in_finally
    [of "''true''" None "static_env (\<lambda>cmd. Completed 1 [] [])"
        "new_helm_test ''quakewatch-test'' ''default''" "initial ()"]
  by (auto simp: new_helm_test_def)

end
